theory Spec2Isabelle
  imports Main "HOL-Library.Word"
begin

section \<open>The compute shader of \<open>SimpleRenderer.render\<close>\<close>

type_synonym u8 = "8 word"
type_synonym u32 = "32 word"

text \<open>
  \<^verbatim>\<open>@builtin(global_invocation_id) global_id: vec3<u32>\<close>: the coordinates of one
  invocation of the compute shader.
\<close>

datatype vec3 = Vec3 (vx: u32) (vy: u32) (vz: u32)

text \<open>
  \<^verbatim>\<open>output[index] = v\<close> on \<^verbatim>\<open>var<storage, read_write> output: array<u32>\<close>.
  The model makes the bounds of the bound buffer explicit: a store past the last element
  is \<open>None\<close>, an out-of-bounds access.
\<close>

definition store :: "u32 list \<Rightarrow> u32 \<Rightarrow> u32 \<Rightarrow> u32 list option" where
  "store output index v =
     (if unat index < length output then Some (output[unat index := v]) else None)"

text \<open>
  \<^verbatim>\<open>let index = global_id.y * 800u + global_id.x;\<close> in \<open>u32\<close> arithmetic, which wraps.
\<close>

definition linear_index :: "vec3 \<Rightarrow> u32" where
  "linear_index global_id = vy global_id * 800 + vx global_id"

text \<open>
  The shader's entry point (main.ts, lines 59 to 65):
  \<^verbatim>\<open>
  fn main(@builtin(global_invocation_id) global_id: vec3<u32>) {
    let index = global_id.y * 800u + global_id.x;
    if (index < 800u * 600u) {
      output[index] = 0xFF00FF00u;  // ABGR: Opaque Green
    }
  }
  \<close>
\<close>

definition main :: "vec3 \<Rightarrow> u32 list \<Rightarrow> u32 list option" where
  "main global_id output =
     (let index = linear_index global_id in
      if index < 800 * 600 then store output index 0xFF00FF00 else Some output)"

text \<open>
  \<^verbatim>\<open>@workgroup_size(16, 16)\<close> and \<^verbatim>\<open>dispatchWorkgroups(nx, ny)\<close>: the grid has
  \<open>nx * 16\<close> by \<open>ny * 16\<close> invocations, one for each global id. The invocations run
  here one after the other, row by row; a store that is out of bounds ends the run.
\<close>

definition invocations :: "nat \<Rightarrow> nat \<Rightarrow> vec3 list" where
  "invocations nx ny =
     concat (map (\<lambda>y. map (\<lambda>x. Vec3 (of_nat x) (of_nat y) 0) [0..<nx * 16]) [0..<ny * 16])"

fun run_invocations :: "vec3 list \<Rightarrow> u32 list \<Rightarrow> u32 list option" where
  "run_invocations [] output = Some output"
| "run_invocations (g # gs) output =
     (case main g output of
        None \<Rightarrow> None
      | Some output' \<Rightarrow> run_invocations gs output')"

definition dispatchWorkgroups :: "nat \<Rightarrow> nat \<Rightarrow> u32 list \<Rightarrow> u32 list option" where
  "dispatchWorkgroups nx ny output = run_invocations (invocations nx ny) output"

text \<open>\<^verbatim>\<open>Math.ceil(a / b)\<close> for the positive integers of the source.\<close>

definition ceil_div :: "nat \<Rightarrow> nat \<Rightarrow> nat" where
  "ceil_div a b = a div b + (if a mod b = 0 then 0 else 1)"

section \<open>Host memory, console and external calls\<close>

text \<open>
  The bytes of a buffer as a \<^verbatim>\<open>Uint8Array\<close> sees them: each \<open>u32\<close> in little-endian
  order, lowest byte first.
\<close>

definition bytes_of_u32 :: "u32 \<Rightarrow> u8 list" where
  "bytes_of_u32 w = [ucast w, ucast (drop_bit 8 w), ucast (drop_bit 16 w), ucast (drop_bit 24 w)]"

definition bytes_of :: "u32 list \<Rightarrow> u8 list" where
  "bytes_of ws = concat (map bytes_of_u32 ws)"

text \<open>\<^verbatim>\<open>Array.prototype.findIndex\<close>: the first index whose element passes, or \<open>-1\<close>.\<close>

fun findIndex :: "('a \<Rightarrow> bool) \<Rightarrow> 'a list \<Rightarrow> int" where
  "findIndex P [] = - 1"
| "findIndex P (x # xs) =
     (if P x then 0 else (let r = findIndex P xs in if r < 0 then - 1 else r + 1))"

text \<open>A thrown JavaScript value: a \<^verbatim>\<open>DOMException\<close> with its name, or another error.\<close>

datatype exn = DOMException string | Error string

text \<open>\<^verbatim>\<open>EventType\<close> of the windowing library, as far as \<open>loop\<close> tells the kinds apart.\<close>

datatype event_type = Draw | Quit | KeyDown | MouseMotion | OtherEvent nat

text \<open>What \<^verbatim>\<open>events().next()\<close> gives: the stream is over, a value, or a rejection.\<close>

datatype next_result = Done | Value event_type | Rejects exn

text \<open>The arguments of a console call; a template literal is the list of its parts.\<close>

datatype jsval = Str string | Num int | Undefined | Thrown exn | Ev event_type
  | Template "jsval list"

text \<open>
  The calls into the GPU device, the window library, the PNG encoder and the runtime,
  each of which may throw. A call that carries bytes or sizes has them as arguments.
  \<^verbatim>\<open>canvas.textureCreator()\<close> is part of \<open>CreateTexture\<close>; the two \<^verbatim>\<open>new Rect(...)\<close> of
  \<open>update\<close> and the reads of constants such as \<^verbatim>\<open>GPUBufferUsage.STORAGE\<close> have no effect
  and are left out.
\<close>

datatype op =
    RequestAdapter | RequestDevice
  | WindowBuild string nat nat | WindowCanvas
  | CreateBuffer nat
  | CreateBindGroupLayout | CreatePipelineLayout | CreateShaderModule
  | CreateComputePipeline | CreateBindGroup
  | CreateCommandEncoder | BeginComputePass | SetPipeline | SetBindGroup
  | DispatchWorkgroups nat nat | PassEnd | Finish | QueueSubmit
  | CopyBufferToBuffer nat nat
  | MapAsync nat | GetMappedRange nat | Unmap nat
  | PngNew nat nat | PngDataSet "u8 list" | PngSyncWrite
  | CreateTexture nat nat | TextureUpdate "u8 list" nat
  | CanvasClear | CanvasCopy | CanvasPresent

text \<open>What the program does to the outside, in the order it does it.\<close>

datatype effect = Call op | Log "jsval list" | LogError "jsval list" | Exit int

datatype mapstate = Unmapped | Mapped

record gpu_buffer =
  contents :: "u32 list"
  mapstate :: mapstate

text \<open>
  The state of the program: the effects so far (oldest first), the fields
  \<^verbatim>\<open>renderBuffer\<close> and \<^verbatim>\<open>frameCount\<close> of \<^verbatim>\<open>SimpleRenderer\<close>, and the staging buffers
  created so far; a staging buffer is named by its position in the list.
\<close>

record world =
  effects :: "effect list"
  renderBuffer :: "u32 list"
  frameCount :: nat
  staging :: "gpu_buffer list"

text \<open>
  The environment of a run: which call throws (asked with the number of effects so far and
  the call), what the \<open>i\<close>-th \<^verbatim>\<open>events().next()\<close> gives, and whether
  \<^verbatim>\<open>requestAdapter()\<close> finds an adapter.
\<close>

record env =
  faults :: "nat \<Rightarrow> op \<Rightarrow> exn option"
  events :: "nat \<Rightarrow> next_result"
  adapter :: bool

text \<open>A statement: it changes the state and either gives a value or throws.\<close>

type_synonym 'a js = "world \<Rightarrow> (exn + 'a) \<times> world"

definition js_return :: "'a \<Rightarrow> 'a js" where
  "js_return x w = (Inr x, w)"

definition js_throw :: "exn \<Rightarrow> 'a js" where
  "js_throw e w = (Inl e, w)"

definition js_bind :: "'a js \<Rightarrow> ('a \<Rightarrow> 'b js) \<Rightarrow> 'b js" where
  "js_bind m f w = (case m w of (Inl e, w') \<Rightarrow> (Inl e, w') | (Inr x, w') \<Rightarrow> f x w')"

definition js_seq :: "unit js \<Rightarrow> 'a js \<Rightarrow> 'a js" where
  "js_seq m n = js_bind m (\<lambda>_. n)"

fun js_block :: "unit js list \<Rightarrow> unit js" where
  "js_block [] = js_return ()"
| "js_block (m # ms) = js_seq m (js_block ms)"

definition try_catch :: "'a js \<Rightarrow> (exn \<Rightarrow> 'a js) \<Rightarrow> 'a js" where
  "try_catch m h w = (case m w of (Inl e, w') \<Rightarrow> h e w' | (Inr x, w') \<Rightarrow> (Inr x, w'))"

definition emit :: "effect \<Rightarrow> unit js" where
  "emit x w = (Inr (), w\<lparr>effects := effects w @ [x]\<rparr>)"

definition console_log :: "jsval list \<Rightarrow> unit js" where
  "console_log args = emit (Log args)"

definition console_error :: "jsval list \<Rightarrow> unit js" where
  "console_error args = emit (LogError args)"

text \<open>An external call: it throws when the environment says so, and is recorded otherwise.\<close>

definition call :: "env \<Rightarrow> op \<Rightarrow> unit js" where
  "call E c w =
     (case faults E (length (effects w)) c of
        Some e \<Rightarrow> (Inl e, w)
      | None \<Rightarrow> emit (Call c) w)"

section \<open>The GPU queue\<close>

text \<open>
  The commands that the two command encoders of the source record: the compute pass of
  \<open>render\<close> and the buffer copy of \<open>update\<close>. They run when they are submitted.
\<close>

datatype gpu_command = ComputePass nat nat | Copy nat nat

text \<open>
  \<^verbatim>\<open>device.createBuffer({size, ...})\<close>: \<open>size\<close> bytes, that is \<open>size div 4\<close> words, all
  zero, not mapped.
\<close>

definition new_buffer :: "nat \<Rightarrow> gpu_buffer" where
  "new_buffer nbytes = \<lparr>contents = replicate (nbytes div 4) 0, mapstate = Unmapped\<rparr>"

text \<open>
  \<^verbatim>\<open>copyBufferToBuffer(renderBuffer, 0, stagingBuffer, 0, size)\<close>: the first \<open>size\<close> bytes
  of the destination become those of the source.
\<close>

definition copy_words :: "nat \<Rightarrow> u32 list \<Rightarrow> u32 list \<Rightarrow> u32 list" where
  "copy_words n src dst = take n src @ drop n dst"

definition run_command :: "gpu_command \<Rightarrow> unit js" where
  "run_command c w =
     (case c of
        ComputePass nx ny \<Rightarrow>
          (case dispatchWorkgroups nx ny (renderBuffer w) of
             None \<Rightarrow> (Inl (Error ''out of bounds''), w)
           | Some buf \<Rightarrow> (Inr (), w\<lparr>renderBuffer := buf\<rparr>))
      | Copy h nbytes \<Rightarrow>
          (if h < length (staging w)
           then (Inr (), w\<lparr>staging := (staging w)[h := (staging w ! h)
                   \<lparr>contents := copy_words (nbytes div 4) (renderBuffer w)
                                   (contents (staging w ! h))\<rparr>]\<rparr>)
           else (Inl (Error ''no such buffer''), w)))"

text \<open>\<^verbatim>\<open>device.queue.submit([commandEncoder.finish()])\<close> after the call of \<^verbatim>\<open>finish\<close>.\<close>

definition queue_submit :: "env \<Rightarrow> gpu_command list \<Rightarrow> unit js" where
  "queue_submit E cs = js_seq (call E QueueSubmit) (js_block (map run_command cs))"

section \<open>\<open>SimpleRenderer\<close>\<close>

text \<open>
  \<^verbatim>\<open>this.frameCount++\<close> on a JavaScript number, a double: past \<open>2 ^ 53\<close> adding one
  gives the same number back.
\<close>

definition increment :: "nat \<Rightarrow> nat" where
  "increment n = (if n < 2 ^ 53 then n + 1 else n)"

text \<open>
  The constructor (main.ts, lines 19 to 31), after the initialiser of the field
  \<^verbatim>\<open>frameCount\<close> (line 17).
\<close>

definition constructor :: "env \<Rightarrow> unit js" where
  "constructor E =
     js_block
       [(\<lambda>w. (Inr (), w\<lparr>frameCount := 0\<rparr>)),
        call E (WindowBuild ''Simple Renderer'' 800 600),
        call E WindowCanvas,
        console_log [Str ''SimpleRenderer constructed''],
        call E (CreateBuffer (800 * 600 * 4)),
        (\<lambda>w. (Inr (), w\<lparr>renderBuffer := contents (new_buffer (800 * 600 * 4))\<rparr>))]"

definition init :: "unit js" where
  "init = console_log [Str ''Initializing SimpleRenderer'']"

text \<open>\<open>render\<close> (main.ts, lines 38 to 95).\<close>

definition render :: "env \<Rightarrow> unit js" where
  "render E =
     js_block
       [(\<lambda>w. console_log [Str ''Rendering frame'', Num (int (frameCount w))] w),
        try_catch
          (js_block
             [call E CreateBindGroupLayout,
              call E CreatePipelineLayout,
              call E CreateShaderModule,
              call E CreateComputePipeline,
              call E CreateBindGroup,
              call E CreateCommandEncoder,
              call E BeginComputePass,
              call E SetPipeline,
              call E SetBindGroup,
              call E (DispatchWorkgroups (ceil_div 800 16) (ceil_div 600 16)),
              call E PassEnd,
              call E Finish,
              queue_submit E [ComputePass (ceil_div 800 16) (ceil_div 600 16)],
              console_log [Str ''Render pass completed'']])
          (\<lambda>error.
             js_seq (console_error [Str ''Error during rendering:'', Thrown error])
                    (js_throw error)),
        (\<lambda>w. (Inr (), w\<lparr>frameCount := increment (frameCount w)\<rparr>))]"

text \<open>
  \<^verbatim>\<open>new Uint8Array(stagingBuffer.getMappedRange())\<close> is a view of the mapped range of a
  staging buffer, not a copy of it. Its bytes are read through the buffer each time; once
  the buffer is unmapped the array buffer is detached and the view is empty.
\<close>

datatype view = View nat

definition view_bytes :: "world \<Rightarrow> view \<Rightarrow> u8 list" where
  "view_bytes w v =
     (case v of View h \<Rightarrow>
        if h < length (staging w) \<and> mapstate (staging w ! h) = Mapped
        then bytes_of (contents (staging w ! h)) else [])"

text \<open>\<^verbatim>\<open>data[i]\<close>: \<^verbatim>\<open>undefined\<close> past the end.\<close>

definition byte_at :: "u8 list \<Rightarrow> nat \<Rightarrow> jsval" where
  "byte_at xs i = (if i < length xs then Num (uint (xs ! i)) else Undefined)"

definition createBuffer :: "env \<Rightarrow> nat \<Rightarrow> nat js" where
  "createBuffer E nbytes =
     js_seq (call E (CreateBuffer nbytes))
       (\<lambda>w. (Inr (length (staging w)), w\<lparr>staging := staging w @ [new_buffer nbytes]\<rparr>))"

definition set_mapstate :: "nat \<Rightarrow> mapstate \<Rightarrow> unit js" where
  "set_mapstate h m w =
     (if h < length (staging w)
      then (Inr (), w\<lparr>staging := (staging w)[h := (staging w ! h)\<lparr>mapstate := m\<rparr>]\<rparr>)
      else (Inl (Error ''no such buffer''), w))"

definition mapAsync :: "env \<Rightarrow> nat \<Rightarrow> unit js" where
  "mapAsync E h = js_seq (call E (MapAsync h)) (set_mapstate h Mapped)"

definition getMappedRange :: "env \<Rightarrow> nat \<Rightarrow> view js" where
  "getMappedRange E h =
     js_seq (call E (GetMappedRange h))
       (\<lambda>w. if h < length (staging w) \<and> mapstate (staging w ! h) = Mapped
            then (Inr (View h), w)
            else (Inl (DOMException ''OperationError''), w))"

definition unmap :: "env \<Rightarrow> nat \<Rightarrow> unit js" where
  "unmap E h = js_seq (call E (Unmap h)) (set_mapstate h Unmapped)"

text \<open>\<open>saveRenderedImage\<close> (main.ts, lines 148 to 164).\<close>

definition pixel_line :: "u8 list \<Rightarrow> nat \<Rightarrow> jsval list" where
  "pixel_line xs i =
     [Template [Str ''Pixel '', Num (int (i div 4)),
                Str '': R='', byte_at xs i, Str '', G='', byte_at xs (i + 1),
                Str '', B='', byte_at xs (i + 2), Str '', A='', byte_at xs (i + 3)]]"

definition saveRenderedImage :: "env \<Rightarrow> view \<Rightarrow> nat \<Rightarrow> nat \<Rightarrow> unit js" where
  "saveRenderedImage E data width height =
     js_block
       [console_log [Str ''Saving rendered image''],
        (\<lambda>w. console_log [Str ''Data length:'', Num (int (length (view_bytes w data)))] w),
        console_log [Str ''Expected length:'', Num (int (width * height * 4))],
        console_log [Str ''First few pixels of data:''],
        (\<lambda>w. js_block (map (\<lambda>i. console_log (pixel_line (view_bytes w data) i))
                           [0, 4, 8, 12, 16]) w),
        call E (PngNew width height),
        (\<lambda>w. (if length (view_bytes w data) \<le> width * height * 4
               then call E (PngDataSet (view_bytes w data))
               else js_throw (Error ''RangeError'')) w),
        call E PngSyncWrite,
        (\<lambda>w. console_log [Template [Str ''Rendered image saved as rendered_image_'',
                                     Num (int (frameCount w)), Str ''.png'']] w)]"

text \<open>\<^verbatim>\<open>byte => byte !== 0\<close>, the test of the two summaries of \<open>update\<close>.\<close>

definition nonzero :: "u8 \<Rightarrow> bool" where
  "nonzero byte = (byte \<noteq> 0)"

text \<open>
  \<open>update\<close> (main.ts, lines 97 to 146). The statements of its \<^verbatim>\<open>try\<close> block after the
  call of \<open>render\<close> come in two parts. The first (lines 103 to 118) reads the render
  buffer back: it gives the staging buffer and the view \<^verbatim>\<open>data\<close> of its mapped range.
\<close>

definition readback :: "env \<Rightarrow> (nat \<times> view) js" where
  "readback E =
     js_bind (createBuffer E (800 * 600 * 4)) (\<lambda>stagingBuffer.
     js_seq (call E CreateCommandEncoder)
    (js_seq (call E (CopyBufferToBuffer stagingBuffer (800 * 600 * 4)))
    (js_seq (call E Finish)
    (js_seq (queue_submit E [Copy stagingBuffer (800 * 600 * 4)])
    (js_seq (mapAsync E stagingBuffer)
    (js_bind (getMappedRange E stagingBuffer) (\<lambda>data.
     js_return (stagingBuffer, data))))))))"

text \<open>The second part (lines 120 to 142) uses the bytes and unmaps the buffer.\<close>

definition consume :: "env \<Rightarrow> nat \<Rightarrow> view \<Rightarrow> unit js" where
  "consume E stagingBuffer data =
     js_block
       [console_log [Str ''Buffer data summary:''],
        (\<lambda>w. console_log [Str ''Total bytes:'', Num (int (length (view_bytes w data)))] w),
        (\<lambda>w. console_log [Str ''Non-zero bytes:'',
                 Num (int (length (filter nonzero (view_bytes w data))))] w),
        (\<lambda>w. console_log [Str ''First non-zero byte index:'',
                 Num (findIndex nonzero (view_bytes w data))] w),
        saveRenderedImage E data 800 600,
        call E (CreateTexture 800 600),
        (\<lambda>w. call E (TextureUpdate (view_bytes w data) (800 * 4)) w),
        call E CanvasClear,
        call E CanvasCopy,
        call E CanvasPresent,
        unmap E stagingBuffer,
        console_log [Str ''Frame updated successfully'']]"

definition update_try :: "env \<Rightarrow> unit js" where
  "update_try E =
     js_seq (render E)
       (js_bind (readback E) (\<lambda>(stagingBuffer, data). consume E stagingBuffer data))"

definition update :: "env \<Rightarrow> unit js" where
  "update E =
     js_seq (\<lambda>w. console_log [Str ''Updating frame'', Num (int (frameCount w))] w)
       (try_catch (update_try E)
          (\<lambda>error. console_error [Str ''Error during update:'', Thrown error]))"

section \<open>The event loop and the program\<close>

text \<open>\<open>getDevice\<close> (main.ts, lines 167 to 181).\<close>

definition getDevice :: "env \<Rightarrow> unit js" where
  "getDevice E =
     js_block
       [console_log [Str ''Requesting WebGPU adapter''],
        call E RequestAdapter,
        (if \<not> adapter E then js_throw (Error ''No appropriate GPUAdapter found'')
         else js_return ()),
        console_log [Str ''Requesting WebGPU device''],
        call E RequestDevice,
        console_log [Str ''WebGPU device created'']]"

text \<open>
  How one pass through the body of \<^verbatim>\<open>while (true)\<close> ends: the next pass, \<^verbatim>\<open>break\<close>,
  or \<^verbatim>\<open>return\<close>.
\<close>

datatype control = Continue | Break | Return

definition is_abort :: "exn \<Rightarrow> bool" where
  "is_abort error = (case error of DOMException name \<Rightarrow> name = ''AbortError'' | Error _ \<Rightarrow> False)"

text \<open>\<^verbatim>\<open>await renderer.window.events().next()\<close> in pass \<open>i\<close> of the loop.\<close>

definition next_event :: "env \<Rightarrow> nat \<Rightarrow> event_type option js" where
  "next_event E i =
     (case events E i of
        Done \<Rightarrow> js_return None
      | Value t \<Rightarrow> js_return (Some t)
      | Rejects e \<Rightarrow> js_throw e)"

text \<open>The body of the loop (main.ts, lines 186 to 222).\<close>

definition loop_body :: "env \<Rightarrow> nat \<Rightarrow> control js" where
  "loop_body E i =
     try_catch
       (js_bind (next_event E i) (\<lambda>event.
          case event of
            None \<Rightarrow> js_seq (console_log [Str ''Event stream closed'']) (js_return Break)
          | Some t \<Rightarrow>
              js_seq (console_log [Str ''Received event:'', Ev t])
                (case t of
                   Draw \<Rightarrow>
                     js_seq (console_log [Str ''Draw event received''])
                       (js_seq (update E) (js_return Continue))
                 | Quit \<Rightarrow>
                     js_seq (console_log [Str ''Quit event received'']) (js_return Return)
                 | KeyDown \<Rightarrow>
                     js_seq (console_log [Str ''KeyDown event received''])
                       (js_return Continue)
                 | MouseMotion \<Rightarrow> js_return Continue
                 | OtherEvent n \<Rightarrow>
                     js_seq (console_log [Str ''Unhandled event type:'', Ev t])
                       (js_return Continue))))
       (\<lambda>error.
          js_seq (console_error [Str ''Error in event loop:'', Thrown error])
            (if is_abort error
             then js_seq (console_log [Str ''Event stream aborted'']) (js_return Break)
             else js_return Continue))"

text \<open>
  \<open>loop\<close> (main.ts, lines 183 to 225), from its pass \<open>i\<close> on. The loop has no bound: where
  it never ends the value is \<open>None\<close>.
\<close>

partial_function (option) loop_from :: "env \<Rightarrow> nat \<Rightarrow> world \<Rightarrow> ((exn + unit) \<times> world) option"
  where
  "loop_from E i w =
     (case loop_body E i w of
        (Inl e, w') \<Rightarrow> Some (Inl e, w')
      | (Inr Continue, w') \<Rightarrow> loop_from E (Suc i) w'
      | (Inr Break, w') \<Rightarrow> Some (console_log [Str ''Exiting main loop''] w')
      | (Inr Return, w') \<Rightarrow> Some (Inr (), w'))"

definition loop :: "env \<Rightarrow> world \<Rightarrow> ((exn + unit) \<times> world) option" where
  "loop E w = loop_from E 0 (snd (console_log [Str ''Entering main loop''] w))"

text \<open>
  The top level of the module (main.ts, lines 228 to 245). The state before it runs has no
  effects and no buffers. The result is the state when \<^verbatim>\<open>Deno.exit\<close> is called, or \<open>None\<close>
  when the loop never ends.
\<close>

definition start :: world where
  "start = \<lparr>effects = [], renderBuffer = [], frameCount = 0, staging = []\<rparr>"

definition program_try :: "env \<Rightarrow> ((exn + unit) \<times> world) option" where
  "program_try E =
     (case js_block [getDevice E, constructor E, init]
             (snd (console_log [Str ''Starting application''] start)) of
        (Inl e, w) \<Rightarrow> Some (Inl e, w)
      | (Inr _, w) \<Rightarrow>
          (case loop E w of
             None \<Rightarrow> None
           | Some (Inl e, w') \<Rightarrow> Some (Inl e, w')
           | Some (Inr _, w') \<Rightarrow> Some (console_log [Str ''Application finished normally''] w')))"

definition program :: "env \<Rightarrow> world option" where
  "program E =
     (case program_try E of
        None \<Rightarrow> None
      | Some r \<Rightarrow>
          Some (snd (js_block [console_log [Str ''Cleaning up...''], emit (Exit 0)]
                  (snd (case r of
                          (Inl error, w) \<Rightarrow> console_error [Str ''Fatal error:'', Thrown error] w
                        | (Inr _, w) \<Rightarrow> (Inr (), w))))))"

text \<open>The exit status of a finished run: the argument of the last \<^verbatim>\<open>Deno.exit\<close>.\<close>

fun exit_status :: "effect list \<Rightarrow> int option" where
  "exit_status [] = None"
| "exit_status (x # xs) =
     (case exit_status xs of
        Some n \<Rightarrow> Some n
      | None \<Rightarrow> (case x of Exit n \<Rightarrow> Some n | _ \<Rightarrow> None))"

section \<open>Notions for the statements\<close>

text \<open>From time \<open>t\<close> on, no external call throws.\<close>

definition quiet_from :: "env \<Rightarrow> nat \<Rightarrow> bool" where
  "quiet_from E t = (\<forall>t'\<ge>t. \<forall>c. faults E t' c = None)"

text \<open>The frame that the shader draws, as words and as bytes.\<close>

definition green_frame :: "u32 list" where
  "green_frame = replicate (800 * 600) 0xFF00FF00"

definition green_bytes :: "u8 list" where
  "green_bytes = bytes_of green_frame"

text \<open>
  The effects of a frame in which nothing throws: those of \<open>render\<close> when the frame
  counter is \<open>n\<close>, of \<open>readback\<close> for the staging buffer \<open>h\<close>, of \<open>saveRenderedImage\<close>
  and of the rest of \<open>update\<close>.
\<close>

definition render_effects :: "nat \<Rightarrow> effect list" where
  "render_effects n =
     [Log [Str ''Rendering frame'', Num (int n)],
      Call CreateBindGroupLayout, Call CreatePipelineLayout, Call CreateShaderModule,
      Call CreateComputePipeline, Call CreateBindGroup, Call CreateCommandEncoder,
      Call BeginComputePass, Call SetPipeline, Call SetBindGroup,
      Call (DispatchWorkgroups 50 38), Call PassEnd, Call Finish, Call QueueSubmit,
      Log [Str ''Render pass completed'']]"

definition readback_effects :: "nat \<Rightarrow> effect list" where
  "readback_effects h =
     [Call (CreateBuffer 1920000), Call CreateCommandEncoder,
      Call (CopyBufferToBuffer h 1920000), Call Finish, Call QueueSubmit,
      Call (MapAsync h), Call (GetMappedRange h)]"

definition green_pixel_line :: "nat \<Rightarrow> effect" where
  "green_pixel_line k =
     Log [Template [Str ''Pixel '', Num (int k), Str '': R='', Num 0, Str '', G='', Num 255,
                    Str '', B='', Num 0, Str '', A='', Num 255]]"

definition save_effects :: "nat \<Rightarrow> effect list" where
  "save_effects n =
     [Log [Str ''Saving rendered image''],
      Log [Str ''Data length:'', Num 1920000],
      Log [Str ''Expected length:'', Num 1920000],
      Log [Str ''First few pixels of data:''],
      green_pixel_line 0, green_pixel_line 1, green_pixel_line 2, green_pixel_line 3,
      green_pixel_line 4,
      Call (PngNew 800 600), Call (PngDataSet green_bytes), Call PngSyncWrite,
      Log [Template [Str ''Rendered image saved as rendered_image_'', Num (int n),
                     Str ''.png'']]]"

definition consume_effects :: "nat \<Rightarrow> nat \<Rightarrow> effect list" where
  "consume_effects n h =
     [Log [Str ''Buffer data summary:''],
      Log [Str ''Total bytes:'', Num 1920000],
      Log [Str ''Non-zero bytes:'', Num 960000],
      Log [Str ''First non-zero byte index:'', Num 1]]
     @ save_effects n @
     [Call (CreateTexture 800 600), Call (TextureUpdate green_bytes 3200),
      Call CanvasClear, Call CanvasCopy, Call CanvasPresent,
      Call (Unmap h),
      Log [Str ''Frame updated successfully'']]"

definition update_effects :: "nat \<Rightarrow> nat \<Rightarrow> effect list" where
  "update_effects n h =
     Log [Str ''Updating frame'', Num (int n)] # render_effects n
       @ readback_effects h @ consume_effects (increment n) h"

text \<open>
  \<open>precedes a b xs\<close>: \<open>a\<close> occurs in \<open>xs\<close>, and \<open>b\<close> occurs after the first \<open>a\<close> and not
  before it.
\<close>

fun precedes :: "'a \<Rightarrow> 'a \<Rightarrow> 'a list \<Rightarrow> bool" where
  "precedes a b [] = False"
| "precedes a b (x # xs) =
     (if x = a then b \<in> set xs else if x = b then False else precedes a b xs)"

text \<open>
  An environment in which nothing throws, an adapter is found and the event stream is
  closed from the start; and the state that the constructor leaves in it.
\<close>

definition calm :: env where
  "calm = \<lparr>faults = (\<lambda>t c. None), events = (\<lambda>i. Done), adapter = True\<rparr>"

definition fresh :: world where
  "fresh = snd (constructor calm start)"

text \<open>The byte arrays handed to \<^verbatim>\<open>sdlTexture.update\<close>, oldest first.\<close>

fun uploads :: "effect list \<Rightarrow> u8 list list" where
  "uploads [] = []"
| "uploads (Call (TextureUpdate d p) # xs) = d # uploads xs"
| "uploads (x # xs) = uploads xs"

text \<open>
  An environment in which every call of \<^verbatim>\<open>canvas.present()\<close> throws, and one in which the
  first \<^verbatim>\<open>queue.submit\<close> of the run throws (at the time of the submission of the first
  \<open>render\<close> after the constructor) and two redraws are followed by a quit.
\<close>

definition present_fails :: env where
  "present_fails =
     \<lparr>faults = (\<lambda>t c. if c = CanvasPresent then Some (Error ''present failed'') else None),
      events = (\<lambda>i. Done), adapter = True\<rparr>"

definition submit_fails_once :: env where
  "submit_fails_once =
     \<lparr>faults = (\<lambda>t c. if c = QueueSubmit \<and> t < 21 then Some (Error ''submission failed'')
                        else None),
      events = (\<lambda>i. if i < 2 then Value Draw else Value Quit), adapter = True\<rparr>"

text \<open>The render buffer has the size that the constructor gave it.\<close>

definition buffer_ok :: "world \<Rightarrow> bool" where
  "buffer_ok w = (length (renderBuffer w) = 800 * 600)"

text \<open>A statement keeps the size of the render buffer, however it ends.\<close>

definition keeps :: "'a js \<Rightarrow> bool" where
  "keeps m = (\<forall>w. buffer_ok w \<longrightarrow> buffer_ok (snd (m w)))"

text \<open>
  The effects of \<open>update\<close> in the first frame of a run in \<open>submit_fails_once\<close>: the
  submission of \<open>render\<close> throws, \<open>render\<close> prints the error and throws it again, and
  \<open>update\<close> prints it.
\<close>

definition failed_frame_effects :: "effect list" where
  "failed_frame_effects =
     [Log [Str ''Updating frame'', Num 0],
      Log [Str ''Rendering frame'', Num 0],
      Call CreateBindGroupLayout, Call CreatePipelineLayout, Call CreateShaderModule,
      Call CreateComputePipeline, Call CreateBindGroup, Call CreateCommandEncoder,
      Call BeginComputePass, Call SetPipeline, Call SetBindGroup,
      Call (DispatchWorkgroups 50 38), Call PassEnd, Call Finish,
      LogError [Str ''Error during rendering:'', Thrown (Error ''submission failed'')],
      LogError [Str ''Error during update:'', Thrown (Error ''submission failed'')]]"

text \<open>
  An environment without faults in which a key press, a quit and then redraws arrive, and
  one in which no adapter is found.
\<close>

definition quit_midway :: env where
  "quit_midway =
     \<lparr>faults = (\<lambda>t c. None),
      events = (\<lambda>i. if i = 0 then Value KeyDown else if i = 1 then Value Quit else Value Draw),
      adapter = True\<rparr>"

definition no_adapter :: env where
  "no_adapter = \<lparr>faults = (\<lambda>t c. None), events = (\<lambda>i. Done), adapter = False\<rparr>"

text \<open>A statement leaves the frame counter as it is, however it ends.\<close>

definition keeps_count :: "'a js \<Rightarrow> bool" where
  "keeps_count m = (\<forall>w. frameCount (snd (m w)) = frameCount w)"

section \<open>Properties of the shader\<close>

lemma main_cases:
  "main g buf =
     (if linear_index g < 480000
      then (if unat (linear_index g) < length buf
            then Some (buf[unat (linear_index g) := 0xFF00FF00]) else None)
      else Some buf)"
  by (simp add: main_def store_def Let_def)

lemma unat_480000: "unat (480000 :: u32) = 480000"
  by simp

lemma linear_index_lt: "linear_index g < 480000 \<longleftrightarrow> unat (linear_index g) < 480000"
  by (simp add: word_less_nat_alt)

lemma main_in_bounds:
  assumes "length buf = 480000"
  shows "main g buf =
           Some (if linear_index g < 480000
                 then buf[unat (linear_index g) := 0xFF00FF00] else buf)"
  using assms by (simp add: main_cases linear_index_lt)

lemma run_invocations_result:
  assumes "length buf = 480000"
  shows "\<exists>buf'. run_invocations gs buf = Some buf' \<and> length buf' = 480000 \<and>
           (\<forall>i<480000. buf' ! i =
              (if \<exists>g\<in>set gs. unat (linear_index g) = i then 0xFF00FF00 else buf ! i))"
  using assms
proof (induction gs arbitrary: buf)
  case Nil
  then show ?case by simp
next
  case (Cons g gs)
  let ?o1 = "if linear_index g < 480000
             then buf[unat (linear_index g) := 0xFF00FF00] else buf"
  have m: "main g buf = Some ?o1"
    using Cons.prems by (rule main_in_bounds)
  have len1: "length ?o1 = 480000"
    using Cons.prems by simp
  from Cons.IH [OF len1] obtain buf' where
    r: "run_invocations gs ?o1 = Some buf'" and
    l: "length buf' = 480000" and
    c: "\<forall>i<480000. buf' ! i =
          (if \<exists>g\<in>set gs. unat (linear_index g) = i then 0xFF00FF00 else ?o1 ! i)"
    by blast
  have "run_invocations (g # gs) buf = Some buf'"
    using m r by simp
  moreover have "\<forall>i<480000. buf' ! i =
      (if \<exists>h\<in>set (g # gs). unat (linear_index h) = i then 0xFF00FF00 else buf ! i)"
  proof (intro allI impI)
    fix i :: nat
    assume i: "i < 480000"
    show "buf' ! i =
      (if \<exists>h\<in>set (g # gs). unat (linear_index h) = i then 0xFF00FF00 else buf ! i)"
    proof (cases "\<exists>h\<in>set gs. unat (linear_index h) = i")
      case True
      then show ?thesis using c i by auto
    next
      case False
      then have "buf' ! i = ?o1 ! i" using c i by simp
      also have "?o1 ! i = (if unat (linear_index g) = i then 0xFF00FF00 else buf ! i)"
        using i Cons.prems by (auto simp: linear_index_lt nth_list_update)
      finally show ?thesis using False by simp
    qed
  qed
  ultimately show ?case using l by blast
qed


section \<open>The dispatch of \<open>render\<close> fills the buffer\<close>

lemma ceil_div_800: "ceil_div 800 16 = 50"
  by (simp add: ceil_div_def)

lemma ceil_div_600: "ceil_div 600 16 = 38"
  by (simp add: ceil_div_def)

lemma in_concat_map: "a \<in> set xs \<Longrightarrow> b \<in> set (f a) \<Longrightarrow> b \<in> set (concat (map f xs))"
  by auto

lemma in_map: "a \<in> set xs \<Longrightarrow> f a \<in> set (map f xs)"
  by simp

lemma in_invocations:
  assumes "x < nx * 16" and "y < ny * 16"
  shows "Vec3 (of_nat x) (of_nat y) 0 \<in> set (invocations nx ny)"
proof -
  have a: "x \<in> set [0..<nx * 16]" and b: "y \<in> set [0..<ny * 16]"
    using assms by simp_all
  show ?thesis
    unfolding invocations_def
    by (rule in_concat_map [OF b]) (rule in_map [OF a])
qed

lemma linear_index_of_nat:
  assumes "y * 800 + x < 2 ^ 32"
  shows "unat (linear_index (Vec3 (of_nat x) (of_nat y) 0)) = y * 800 + x"
proof -
  have "linear_index (Vec3 (of_nat x) (of_nat y) 0) = (of_nat (y * 800 + x) :: u32)"
    by (simp add: linear_index_def)
  then show ?thesis using assms
    by (simp add: unat_of_nat del: of_nat_add of_nat_mult)
qed

lemma invocations_cover:
  assumes "i < 480000"
  shows "\<exists>g\<in>set (invocations 50 38). unat (linear_index g) = i"
proof -
  let ?g = "Vec3 (of_nat (i mod 800)) (of_nat (i div 800)) 0"
  have "i mod 800 < 50 * 16" and "i div 800 < 38 * 16" using assms by simp_all
  then have "?g \<in> set (invocations 50 38)"
    by (rule in_invocations)
  moreover have "unat (linear_index ?g) = i div 800 * 800 + i mod 800"
    using assms by (intro linear_index_of_nat) simp
  ultimately show ?thesis by auto
qed

text \<open>
  The GPU runs the invocations of a dispatch in no fixed order. The order does not matter
  here: run in any order, and any number of times each, the invocations of the grid of
  \<open>render\<close> leave the green frame.
\<close>

lemma run_invocations_green:
  assumes "length buf = 480000" and "set (invocations 50 38) \<subseteq> set gs"
  shows "run_invocations gs buf = Some green_frame"
proof -
  from run_invocations_result [OF assms(1), of gs] obtain buf' where
    r: "run_invocations gs buf = Some buf'" and
    l: "length buf' = 480000" and
    c: "\<forall>i<480000. buf' ! i =
          (if \<exists>g\<in>set gs. unat (linear_index g) = i then 0xFF00FF00 else buf ! i)"
    by blast
  have "buf' = green_frame"
    unfolding green_frame_def
  proof (rule nth_equalityI)
    show "length buf' = length (replicate (800 * 600) (0xFF00FF00 :: u32))"
      using l by simp
  next
    fix i assume "i < length buf'"
    then have i: "i < 480000" using l by simp
    from invocations_cover [OF i] assms(2)
    have "\<exists>g\<in>set gs. unat (linear_index g) = i" by blast
    then have "buf' ! i = 0xFF00FF00" using c i by simp
    then show "buf' ! i = replicate (800 * 600) (0xFF00FF00 :: u32) ! i"
      using i by simp
  qed
  then show ?thesis
    using r by simp
qed

lemma dispatch_green:
  assumes "length buf = 480000"
  shows "dispatchWorkgroups 50 38 buf = Some green_frame"
  unfolding dispatchWorkgroups_def
  using assms by (rule run_invocations_green) simp

section \<open>The bytes of the green frame\<close>

lemma length_green_frame: "length green_frame = 480000"
  by (simp add: green_frame_def)

lemma bytes_of_green_pixel: "bytes_of_u32 0xFF00FF00 = [0, 0xFF, 0, 0xFF]"
  by (simp add: bytes_of_u32_def)

lemma green_bytes_eq: "green_bytes = concat (replicate 480000 [0, 0xFF, 0, 0xFF])"
  by (simp add: green_bytes_def green_frame_def bytes_of_def bytes_of_green_pixel)

lemma length_concat_replicate: "length (concat (replicate n xs)) = n * length xs"
  by (induction n) simp_all

lemma filter_concat_replicate:
  "filter P (concat (replicate n xs)) = concat (replicate n (filter P xs))"
  by (induction n) simp_all

lemma nth_concat_replicate:
  "k < n * length xs \<Longrightarrow> concat (replicate n xs) ! k = xs ! (k mod length xs)"
proof (induction n arbitrary: k)
  case 0
  then show ?case by simp
next
  case (Suc n)
  show ?case
  proof (cases "k < length xs")
    case True
    then show ?thesis by (simp add: nth_append)
  next
    case False
    then have "k - length xs < n * length xs" using Suc.prems by simp
    from Suc.IH [OF this] False show ?thesis
      by (simp add: nth_append le_mod_geq)
  qed
qed

lemma findIndex_concat_replicate:
  assumes "0 < n"
  shows "findIndex nonzero (concat (replicate n [0, 0xFF, 0, 0xFF :: u8])) = 1"
proof -
  from assms obtain m where "n = Suc m" by (cases n) auto
  then show ?thesis by (simp add: nonzero_def)
qed

lemma length_green_bytes: "length green_bytes = 1920000"
  by (simp add: green_bytes_eq length_concat_replicate)

lemma nonzero_green_bytes: "length (filter nonzero green_bytes) = 960000"
  by (simp add: green_bytes_eq filter_concat_replicate length_concat_replicate nonzero_def)

lemma findIndex_green_bytes: "findIndex nonzero green_bytes = 1"
  unfolding green_bytes_eq by (rule findIndex_concat_replicate) simp

lemma nth_green_bytes:
  assumes "i < 1920000"
  shows "green_bytes ! i = [0, 0xFF, 0, 0xFF] ! (i mod 4)"
  unfolding green_bytes_eq using assms by (subst nth_concat_replicate) simp_all

lemma byte_at_green:
  "i < 1920000 \<Longrightarrow> byte_at green_bytes i = Num (uint ([0, 0xFF, 0, 0xFF :: u8] ! (i mod 4)))"
  by (simp add: byte_at_def length_green_bytes nth_green_bytes)

lemma pixel_line_green:
  "Log (pixel_line green_bytes 0) = green_pixel_line 0"
  "Log (pixel_line green_bytes 4) = green_pixel_line 1"
  "Log (pixel_line green_bytes 8) = green_pixel_line 2"
  "Log (pixel_line green_bytes 12) = green_pixel_line 3"
  "Log (pixel_line green_bytes 16) = green_pixel_line 4"
  by (simp_all add: pixel_line_def green_pixel_line_def byte_at_green)

section \<open>A frame in which nothing throws\<close>

lemmas js_defs = js_return_def js_throw_def js_bind_def js_seq_def try_catch_def emit_def
  console_log_def console_error_def

lemma js_bind_cong: "w = w' \<Longrightarrow> js_bind m f w = js_bind m f w'"
  by simp

lemma js_seq_cong: "w = w' \<Longrightarrow> js_seq m n w = js_seq m n w'"
  by simp

lemma try_catch_cong: "w = w' \<Longrightarrow> try_catch m h w = try_catch m h w'"
  by simp

lemmas js_congs = js_bind_cong js_seq_cong try_catch_cong if_weak_cong

lemma quiet_from_Suc: "quiet_from E t \<Longrightarrow> quiet_from E (Suc t)"
  by (simp add: quiet_from_def)

lemma quiet_from_add: "quiet_from E t \<Longrightarrow> quiet_from E (t + k)"
  by (simp add: quiet_from_def)

lemma call_quiet:
  "quiet_from E (length (effects w)) \<Longrightarrow>
     call E c w = (Inr (), w\<lparr>effects := effects w @ [Call c]\<rparr>)"
  by (simp add: call_def quiet_from_def emit_def)

lemma render_ok:
  assumes "quiet_from E (length (effects w))" and "length (renderBuffer w) = 480000"
  shows "render E w =
    (Inr (), w\<lparr>effects := effects w @ render_effects (frameCount w),
                renderBuffer := green_frame,
                frameCount := increment (frameCount w)\<rparr>)"
  using assms
  by (simp add: render_def js_defs call_quiet quiet_from_Suc queue_submit_def run_command_def
      dispatch_green render_effects_def ceil_div_800 ceil_div_600 cong: js_congs)

lemma copy_words_full:
  "length src = n \<Longrightarrow> length dst = n \<Longrightarrow> copy_words n src dst = src"
  by (simp add: copy_words_def)

lemma readback_ok:
  assumes "quiet_from E (length (effects w))" and "length (renderBuffer w) = 480000"
  shows "readback E w =
    (Inr (length (staging w), View (length (staging w))),
     w\<lparr>effects := effects w @ readback_effects (length (staging w)),
       staging := staging w @ [\<lparr>contents = renderBuffer w, mapstate = Mapped\<rparr>]\<rparr>)"
  using assms
  by (simp add: readback_def js_defs call_quiet quiet_from_Suc queue_submit_def
      run_command_def createBuffer_def new_buffer_def mapAsync_def set_mapstate_def
      getMappedRange_def copy_words_full readback_effects_def cong: js_congs)

lemma view_bytes_View:
  "view_bytes w (View h) =
     (if h < length (staging w) \<and> mapstate (staging w ! h) = Mapped
      then bytes_of (contents (staging w ! h)) else [])"
  by (simp add: view_bytes_def)

lemma view_bytes_effects: "view_bytes (w\<lparr>effects := e\<rparr>) v = view_bytes w v"
  by (cases v) (simp add: view_bytes_def)

lemma saveRenderedImage_ok:
  assumes "quiet_from E (length (effects w))" and "view_bytes w data = green_bytes"
  shows "saveRenderedImage E data 800 600 w =
    (Inr (), w\<lparr>effects := effects w @ save_effects (frameCount w)\<rparr>)"
  using assms
  by (simp add: saveRenderedImage_def js_defs call_quiet quiet_from_Suc view_bytes_effects
      length_green_bytes pixel_line_green save_effects_def cong: js_congs)

lemma consume_ok:
  assumes "quiet_from E (length (effects w))"
    and "staging w = pre @ [\<lparr>contents = green_frame, mapstate = Mapped\<rparr>]"
    and "h = length pre"
  shows "consume E h (View h) w =
    (Inr (), w\<lparr>effects := effects w @ consume_effects (frameCount w) h,
       staging := pre @ [\<lparr>contents = green_frame, mapstate = Unmapped\<rparr>]\<rparr>)"
  using assms
  by (simp add: consume_def js_defs call_quiet quiet_from_Suc quiet_from_add
      set_mapstate_def unmap_def saveRenderedImage_ok view_bytes_View
      green_bytes_def [symmetric] length_green_bytes
      nonzero_green_bytes findIndex_green_bytes consume_effects_def cong: js_congs)

lemma update_try_ok:
  assumes "quiet_from E (length (effects w))" and "length (renderBuffer w) = 480000"
  shows "update_try E w =
    (Inr (), w\<lparr>effects := effects w @ render_effects (frameCount w)
                  @ readback_effects (length (staging w))
                  @ consume_effects (increment (frameCount w)) (length (staging w)),
                renderBuffer := green_frame,
                frameCount := increment (frameCount w),
                staging := staging w @ [\<lparr>contents = green_frame, mapstate = Unmapped\<rparr>]\<rparr>)"
  using assms
  by (simp add: update_try_def js_defs render_ok readback_ok consume_ok [where pre = "staging w"]
      quiet_from_add length_green_frame cong: js_congs)

lemma update_ok:
  assumes "quiet_from E (length (effects w))" and "length (renderBuffer w) = 480000"
  shows "update E w =
    (Inr (), w\<lparr>effects := effects w @ update_effects (frameCount w) (length (staging w)),
                renderBuffer := green_frame,
                frameCount := increment (frameCount w),
                staging := staging w @ [\<lparr>contents = green_frame, mapstate = Unmapped\<rparr>]\<rparr>)"
  using assms
  by (simp add: update_def js_defs update_try_ok quiet_from_Suc update_effects_def
      cong: js_congs)


section \<open>The first frame and the bytes of a frame\<close>

lemma quiet_calm: "quiet_from calm t"
  by (simp add: quiet_from_def calm_def)

lemma fresh_eq:
  "fresh = \<lparr>effects = [Call (WindowBuild ''Simple Renderer'' 800 600), Call WindowCanvas,
                        Log [Str ''SimpleRenderer constructed''], Call (CreateBuffer 1920000)],
             renderBuffer = replicate 480000 0, frameCount = 0, staging = []\<rparr>"
  by (simp add: fresh_def constructor_def start_def js_defs call_quiet quiet_calm new_buffer_def
      cong: js_congs)

lemma length_renderBuffer_fresh: "length (renderBuffer fresh) = 480000"
  by (simp add: fresh_eq)

lemma length_bytes_of_u32: "length (bytes_of_u32 x) = 4"
  by (simp add: bytes_of_u32_def)

lemma texel_bytes_of:
  "k < length ws \<Longrightarrow> take 4 (drop (4 * k) (bytes_of ws)) = bytes_of_u32 (ws ! k)"
proof (induction ws arbitrary: k)
  case Nil
  then show ?case by simp
next
  case (Cons x ws)
  have split: "bytes_of (x # ws) = bytes_of_u32 x @ bytes_of ws"
    by (simp add: bytes_of_def)
  show ?case
  proof (cases k)
    case 0
    then show ?thesis by (simp add: split length_bytes_of_u32)
  next
    case (Suc j)
    then have "j < length ws" using Cons.prems by simp
    from Cons.IH [OF this] Suc show ?thesis
      by (simp add: split length_bytes_of_u32)
  qed
qed

lemma texel_green_bytes:
  "k < 480000 \<Longrightarrow> take 4 (drop (4 * k) green_bytes) = bytes_of_u32 0xFF00FF00"
  unfolding green_bytes_def
  by (subst texel_bytes_of) (simp_all add: length_green_frame green_frame_def)

lemma cycle_ok:
  assumes "quiet_from E (length (effects w))" and "length (renderBuffer w) = 480000"
  shows "js_seq (render E) (readback E) w =
    (Inr (length (staging w), View (length (staging w))),
     w\<lparr>effects := effects w @ render_effects (frameCount w)
                  @ readback_effects (length (staging w)),
       renderBuffer := green_frame,
       frameCount := increment (frameCount w),
       staging := staging w @ [\<lparr>contents = green_frame, mapstate = Mapped\<rparr>]\<rparr>)"
  using assms
  by (simp add: js_defs render_ok readback_ok quiet_from_add length_green_frame cong: js_congs)

lemma uploads_append: "uploads (xs @ ys) = uploads xs @ uploads ys"
  by (induction xs rule: uploads.induct) simp_all

lemmas frame_effects_defs = update_effects_def render_effects_def readback_effects_def
  consume_effects_def save_effects_def green_pixel_line_def

lemma uploads_update_effects: "uploads (update_effects n h) = [green_bytes]"
  by (simp add: frame_effects_defs)

lemma increment_small: "n < 2 ^ 53 \<Longrightarrow> increment n = n + 1"
  by (simp add: increment_def)

section \<open>A frame in which the presentation throws\<close>

lemma call_present_fails:
  "c \<noteq> CanvasPresent \<Longrightarrow>
     call present_fails c w = (Inr (), w\<lparr>effects := effects w @ [Call c]\<rparr>)"
  "call present_fails CanvasPresent w = (Inl (Error ''present failed''), w)"
  by (simp_all add: call_def present_fails_def emit_def)

lemma update_present_fails:
  "update present_fails fresh =
     (Inr (), fresh\<lparr>effects := effects fresh @
                 Log [Str ''Updating frame'', Num 0] # render_effects 0 @ readback_effects 0
                 @ [Log [Str ''Buffer data summary:''],
                    Log [Str ''Total bytes:'', Num 1920000],
                    Log [Str ''Non-zero bytes:'', Num 960000],
                    Log [Str ''First non-zero byte index:'', Num 1]]
                 @ save_effects 1
                 @ [Call (CreateTexture 800 600), Call (TextureUpdate green_bytes 3200),
                    Call CanvasClear, Call CanvasCopy,
                    LogError [Str ''Error during update:'', Thrown (Error ''present failed'')]],
               renderBuffer := green_frame,
               frameCount := 1,
               staging := [\<lparr>contents = green_frame, mapstate = Mapped\<rparr>]\<rparr>)"
proof -
  have r: "\<And>w. length (renderBuffer w) = 480000 \<Longrightarrow> render present_fails w =
    (Inr (), w\<lparr>effects := effects w @ render_effects (frameCount w),
                renderBuffer := green_frame,
                frameCount := increment (frameCount w)\<rparr>)"
    by (simp add: render_def js_defs call_present_fails queue_submit_def run_command_def
        dispatch_green render_effects_def ceil_div_800 ceil_div_600 cong: js_congs)
  have b: "\<And>w. length (renderBuffer w) = 480000 \<Longrightarrow> readback present_fails w =
    (Inr (length (staging w), View (length (staging w))),
     w\<lparr>effects := effects w @ readback_effects (length (staging w)),
       staging := staging w @ [\<lparr>contents = renderBuffer w, mapstate = Mapped\<rparr>]\<rparr>)"
    by (simp add: readback_def js_defs call_present_fails queue_submit_def
      run_command_def createBuffer_def new_buffer_def mapAsync_def set_mapstate_def
      getMappedRange_def copy_words_full readback_effects_def cong: js_congs)
  have s: "\<And>w data. view_bytes w data = green_bytes \<Longrightarrow>
      saveRenderedImage present_fails data 800 600 w =
        (Inr (), w\<lparr>effects := effects w @ save_effects (frameCount w)\<rparr>)"
    by (simp add: saveRenderedImage_def js_defs call_present_fails view_bytes_effects
      length_green_bytes pixel_line_green save_effects_def cong: js_congs)
  have c: "\<And>w. staging w = [\<lparr>contents = green_frame, mapstate = Mapped\<rparr>] \<Longrightarrow>
      consume present_fails 0 (View 0) w =
        (Inl (Error ''present failed''),
         w\<lparr>effects := effects w @
                 [Log [Str ''Buffer data summary:''],
                    Log [Str ''Total bytes:'', Num 1920000],
                    Log [Str ''Non-zero bytes:'', Num 960000],
                    Log [Str ''First non-zero byte index:'', Num 1]]
                 @ save_effects (frameCount w)
                 @ [Call (CreateTexture 800 600), Call (TextureUpdate green_bytes 3200),
                    Call CanvasClear, Call CanvasCopy]\<rparr>)"
    by (simp add: consume_def js_defs call_present_fails s view_bytes_View
      green_bytes_def [symmetric] length_green_bytes
      nonzero_green_bytes findIndex_green_bytes cong: js_congs)
  have f: "frameCount fresh = 0" "staging fresh = []" "renderBuffer fresh = replicate 480000 0"
    by (simp_all add: fresh_eq)
  show ?thesis
    by (simp add: update_def update_try_def js_defs r b c f increment_def length_green_frame
        cong: js_congs)
qed

section \<open>Whatever throws, the render buffer keeps its size and \<open>update\<close> returns\<close>

lemma store_length: "store buf i v = Some buf' \<Longrightarrow> length buf' = length buf"
  by (auto simp: store_def split: if_splits)

lemma main_length: "main g buf = Some buf' \<Longrightarrow> length buf' = length buf"
  by (auto simp: main_def Let_def store_length split: if_splits)

lemma run_invocations_length:
  "run_invocations gs buf = Some buf' \<Longrightarrow> length buf' = length buf"
proof (induction gs arbitrary: buf)
  case Nil
  then show ?case by simp
next
  case (Cons g gs)
  then show ?case
    by (auto split: option.splits dest: main_length)
qed

lemma dispatch_length:
  "dispatchWorkgroups nx ny buf = Some buf' \<Longrightarrow> length buf' = length buf"
  unfolding dispatchWorkgroups_def by (rule run_invocations_length)

lemma keepsI: "(\<And>w. buffer_ok w \<Longrightarrow> buffer_ok (snd (m w))) \<Longrightarrow> keeps m"
  by (simp add: keeps_def)

lemma keepsD: "keeps m \<Longrightarrow> buffer_ok w \<Longrightarrow> buffer_ok (snd (m w))"
  by (simp add: keeps_def)

lemma buffer_ok_effects: "buffer_ok (w\<lparr>effects := e\<rparr>) = buffer_ok w"
  by (simp add: buffer_ok_def)

lemma buffer_ok_staging: "buffer_ok (w\<lparr>staging := s\<rparr>) = buffer_ok w"
  by (simp add: buffer_ok_def)

lemma buffer_ok_frameCount: "buffer_ok (w\<lparr>frameCount := n\<rparr>) = buffer_ok w"
  by (simp add: buffer_ok_def)

lemmas buffer_ok_simps = buffer_ok_effects buffer_ok_staging buffer_ok_frameCount

lemma keeps_return: "keeps (js_return x)"
  by (simp add: keeps_def js_return_def)

lemma keeps_throw: "keeps (js_throw e)"
  by (simp add: keeps_def js_throw_def)

lemma keeps_bind: "keeps m \<Longrightarrow> (\<And>x. keeps (f x)) \<Longrightarrow> keeps (js_bind m f)"
  by (auto simp: keeps_def js_bind_def split: prod.splits sum.splits)

lemma keeps_seq: "keeps m \<Longrightarrow> keeps n \<Longrightarrow> keeps (js_seq m n)"
  by (simp add: js_seq_def keeps_bind)

lemma keeps_block_Nil: "keeps (js_block [])"
  by (simp add: keeps_return)

lemma keeps_block_Cons: "keeps m \<Longrightarrow> keeps (js_block ms) \<Longrightarrow> keeps (js_block (m # ms))"
  by (simp add: keeps_seq)

lemma keeps_block: "list_all keeps ms \<Longrightarrow> keeps (js_block ms)"
  by (induction ms) (simp_all add: keeps_return keeps_seq)

lemma keeps_try_catch: "keeps m \<Longrightarrow> (\<And>e. keeps (h e)) \<Longrightarrow> keeps (try_catch m h)"
  by (auto simp: keeps_def try_catch_def split: prod.splits sum.splits)

lemma keeps_emit: "keeps (emit x)"
  by (simp add: keeps_def emit_def buffer_ok_simps)

lemma keeps_console_log: "keeps (console_log args)"
  by (simp add: console_log_def keeps_emit)

lemma keeps_console_error: "keeps (console_error args)"
  by (simp add: console_error_def keeps_emit)

lemma keeps_call: "keeps (call E c)"
  by (simp add: keeps_def call_def emit_def buffer_ok_simps split: option.splits)

lemma keeps_fn: "(\<And>v. keeps (f v)) \<Longrightarrow> keeps (\<lambda>w. f (g w) w)"
  by (simp add: keeps_def)

lemma keeps_run_command: "keeps (run_command c)"
  by (auto simp: keeps_def run_command_def buffer_ok_def split: gpu_command.splits
      option.splits dest: dispatch_length)

lemma keeps_queue_submit: "keeps (queue_submit E cs)"
  unfolding queue_submit_def
  by (intro keeps_seq keeps_call keeps_block) (simp add: list_all_iff keeps_run_command)

lemma keeps_set_mapstate: "keeps (set_mapstate h m)"
  by (simp add: keeps_def set_mapstate_def buffer_ok_simps)

lemmas keeps_intros = keeps_return keeps_throw keeps_bind keeps_seq keeps_block_Nil
  keeps_block_Cons keeps_try_catch keeps_emit keeps_console_log keeps_console_error keeps_call
  keeps_queue_submit keeps_set_mapstate

lemmas keeps_leaf = keeps_def js_defs call_def buffer_ok_simps

lemma keeps_render: "keeps (render E)"
  unfolding render_def
  by (intro keeps_intros) (simp_all add: keeps_leaf)

lemma keeps_readback: "keeps (readback E)"
  unfolding readback_def createBuffer_def mapAsync_def getMappedRange_def
  by (intro keeps_intros) (simp_all add: keeps_leaf)

lemma keeps_saveRenderedImage: "keeps (saveRenderedImage E data width height)"
  unfolding saveRenderedImage_def
  by (intro keeps_intros) (simp_all add: keeps_leaf split: option.splits)

lemma keeps_consume: "keeps (consume E h data)"
  unfolding consume_def unmap_def
  by (intro keeps_intros keeps_saveRenderedImage) (simp_all add: keeps_leaf split: option.splits)

lemma keeps_update_try: "keeps (update_try E)"
  unfolding update_try_def
  by (intro keeps_seq keeps_bind keeps_render keeps_readback)
    (simp add: keeps_consume split: prod.splits)

lemma keeps_update: "keeps (update E)"
  unfolding update_def
  by (intro keeps_intros keeps_update_try) (simp_all add: keeps_leaf)

lemma update_returns: "fst (update E w) = Inr ()"
  by (simp add: update_def js_defs split: prod.splits sum.splits)

section \<open>One pass of the loop\<close>

lemma update_pair: "update E w = (Inr (), snd (update E w))"
  using update_returns [of E w] by (cases "update E w") simp

lemma loop_body_Draw:
  assumes "events E i = Value Draw"
  shows "loop_body E i w =
    (Inr Continue,
     snd (update E (w\<lparr>effects := effects w @ [Log [Str ''Received event:'', Ev Draw],
                                              Log [Str ''Draw event received'']]\<rparr>)))"
proof -
  let ?w = "w\<lparr>effects := effects w @ [Log [Str ''Received event:'', Ev Draw],
                                              Log [Str ''Draw event received'']]\<rparr>"
  obtain u where u: "update E ?w = (Inr (), u)"
    using update_pair by blast
  show ?thesis
    using assms by (simp add: loop_body_def next_event_def js_defs u)
qed

lemma loop_body_Quit:
  assumes "events E i = Value Quit"
  shows "loop_body E i w =
    (Inr Return, w\<lparr>effects := effects w @ [Log [Str ''Received event:'', Ev Quit],
                                           Log [Str ''Quit event received'']]\<rparr>)"
  using assms by (simp add: loop_body_def next_event_def js_defs)

lemma loop_body_Done:
  assumes "events E i = Done"
  shows "loop_body E i w =
    (Inr Break, w\<lparr>effects := effects w @ [Log [Str ''Event stream closed'']]\<rparr>)"
  using assms by (simp add: loop_body_def next_event_def js_defs)

lemma loop_body_returns: "\<exists>c w'. loop_body E i w = (Inr c, w')"
proof (cases "events E i")
  case Done
  then show ?thesis by (simp add: loop_body_Done)
next
  case (Value t)
  show ?thesis
  proof (cases t)
    case Draw
    then show ?thesis using Value by (simp add: loop_body_Draw)
  qed (use Value in \<open>simp_all add: loop_body_def next_event_def js_defs\<close>)
next
  case (Rejects e)
  then show ?thesis by (simp add: loop_body_def next_event_def js_defs)
qed

lemma update_logged:
  assumes "update_try E (w\<lparr>effects := effects w @ [Log [Str ''Updating frame'',
              Num (int (frameCount w))]]\<rparr>) = (Inl e, w0)"
  shows "update E w =
    (Inr (), w0\<lparr>effects := effects w0 @ [LogError [Str ''Error during update:'', Thrown e]]\<rparr>)"
  using assms by (simp add: update_def js_defs)

lemma quiet_from_submit_fails_once: "21 \<le> t \<Longrightarrow> quiet_from submit_fails_once t"
  by (simp add: quiet_from_def submit_fails_once_def)

lemma call_submit_fails_once:
  "call submit_fails_once c w =
     (if c = QueueSubmit \<and> length (effects w) < 21
      then (Inl (Error ''submission failed''), w)
      else (Inr (), w\<lparr>effects := effects w @ [Call c]\<rparr>))"
  by (simp add: call_def submit_fails_once_def emit_def)

lemma call_sfo_other:
  "c \<noteq> QueueSubmit \<Longrightarrow>
   call submit_fails_once c w = (Inr (), w\<lparr>effects := effects w @ [Call c]\<rparr>)"
  by (simp add: call_submit_fails_once)

lemma call_sfo_submit:
  "length (effects w) < 21 \<Longrightarrow>
   call submit_fails_once QueueSubmit w = (Inl (Error ''submission failed''), w)"
  by (simp add: call_submit_fails_once)

lemma render_submit_fails_once:
  assumes "length (effects w) < 8"
  shows "render submit_fails_once w =
    (Inl (Error ''submission failed''),
     w\<lparr>effects := effects w @
       [Log [Str ''Rendering frame'', Num (int (frameCount w))],
      Call CreateBindGroupLayout, Call CreatePipelineLayout, Call CreateShaderModule,
      Call CreateComputePipeline, Call CreateBindGroup, Call CreateCommandEncoder,
      Call BeginComputePass, Call SetPipeline, Call SetBindGroup,
      Call (DispatchWorkgroups 50 38), Call PassEnd, Call Finish,
      LogError [Str ''Error during rendering:'', Thrown (Error ''submission failed'')]]\<rparr>)"
  using assms
  by (simp add: render_def js_defs call_sfo_other call_sfo_submit queue_submit_def
      ceil_div_800 ceil_div_600 cong: js_congs)

lemma length_effects_fresh: "length (effects fresh) = 4"
  by (simp add: fresh_eq)

lemma frameCount_fresh: "frameCount fresh = 0"
  by (simp add: fresh_eq)

lemma update_try_submit_fails_once:
  "update_try submit_fails_once
     (fresh\<lparr>effects := effects fresh @ [Log [Str ''Received event:'', Ev Draw],
                 Log [Str ''Draw event received''], Log [Str ''Updating frame'', Num 0]]\<rparr>)
   = (Inl (Error ''submission failed''),
      fresh\<lparr>effects := effects fresh @ [Log [Str ''Received event:'', Ev Draw],
                 Log [Str ''Draw event received'']] @ butlast failed_frame_effects\<rparr>)"
  by (simp add: update_try_def js_defs render_submit_fails_once length_effects_fresh
      frameCount_fresh failed_frame_effects_def cong: js_congs)

lemma loop_body_submit_fails_once:
  "loop_body submit_fails_once 0 fresh =
     (Inr Continue,
      fresh\<lparr>effects := effects fresh @ [Log [Str ''Received event:'', Ev Draw],
                 Log [Str ''Draw event received'']] @ failed_frame_effects\<rparr>)"
proof -
  have e: "events submit_fails_once 0 = Value Draw"
    by (simp add: submit_fails_once_def)
  have u: "update submit_fails_once
     (fresh\<lparr>effects := effects fresh @ [Log [Str ''Received event:'', Ev Draw],
                 Log [Str ''Draw event received'']]\<rparr>)
    = (Inr (), fresh\<lparr>effects := effects fresh @ [Log [Str ''Received event:'', Ev Draw],
                 Log [Str ''Draw event received'']] @ failed_frame_effects\<rparr>)"
    by (subst update_logged [where e = "Error ''submission failed''"
          and ?w0.0 = "fresh\<lparr>effects := effects fresh @ [Log [Str ''Received event:'', Ev Draw],
                 Log [Str ''Draw event received'']] @ butlast failed_frame_effects\<rparr>"])
      (simp_all add: frameCount_fresh update_try_submit_fails_once, simp add: failed_frame_effects_def)
  show ?thesis
    by (simp add: loop_body_Draw [OF e] u)
qed

section \<open>The loop and the program\<close>

lemma call_events: "call (E\<lparr>events := ev\<rparr>) = call E"
  by (simp add: call_def fun_eq_iff)

lemma render_events: "render (E\<lparr>events := ev\<rparr>) = render E"
  by (simp add: render_def queue_submit_def call_events)

lemma readback_events: "readback (E\<lparr>events := ev\<rparr>) = readback E"
  by (simp add: readback_def queue_submit_def createBuffer_def mapAsync_def
      getMappedRange_def call_events)

lemma saveRenderedImage_events:
  "saveRenderedImage (E\<lparr>events := ev\<rparr>) = saveRenderedImage E"
  by (simp add: fun_eq_iff saveRenderedImage_def call_events cong del: if_weak_cong)

lemma consume_events: "consume (E\<lparr>events := ev\<rparr>) = consume E"
  by (simp add: fun_eq_iff consume_def unmap_def call_events saveRenderedImage_events)

lemma update_events: "update (E\<lparr>events := ev\<rparr>) = update E"
  by (simp add: update_def update_try_def render_events readback_events consume_events)

lemma loop_body_events:
  "ev i = events E i \<Longrightarrow> loop_body (E\<lparr>events := ev\<rparr>) i = loop_body E i"
  by (simp add: loop_body_def next_event_def update_events
      cong del: event_type.case_cong_weak option.case_cong_weak)

lemma loop_from_Quit:
  assumes "events E i = Value Quit"
  shows "loop_from E i w =
    Some (Inr (), w\<lparr>effects := effects w @ [Log [Str ''Received event:'', Ev Quit],
                                            Log [Str ''Quit event received'']]\<rparr>)"
  by (subst loop_from.simps) (simp add: loop_body_Quit [OF assms])

lemma loop_from_Done:
  assumes "events E i = Done"
  shows "loop_from E i w =
    Some (Inr (), w\<lparr>effects := effects w @ [Log [Str ''Event stream closed''],
                                            Log [Str ''Exiting main loop'']]\<rparr>)"
  by (subst loop_from.simps) (simp add: loop_body_Done [OF assms] js_defs)

lemma loop_from_reaches_Quit:
  assumes "events E i = Value Quit"
  shows "k \<le> i \<Longrightarrow> loop_from E k w \<noteq> None"
proof (induction "i - k" arbitrary: k w)
  case 0
  then have "k = i" by simp
  then show ?case by (simp add: loop_from_Quit [OF assms])
next
  case (Suc d)
  then have d: "d = i - Suc k" and le: "Suc k \<le> i" by simp_all
  obtain c w' where b: "loop_body E k w = (Inr c, w')"
    using loop_body_returns by blast
  show ?case
  proof (cases c)
    case Continue
    then have "loop_from E k w = loop_from E (Suc k) w'"
      by (subst loop_from.simps) (simp add: b)
    then show ?thesis using Suc.hyps(1) [OF d le] by simp
  next
    case Break
    then show ?thesis by (subst loop_from.simps) (simp add: b js_defs)
  next
    case Return
    then show ?thesis by (subst loop_from.simps) (simp add: b)
  qed
qed

lemma loop_from_ignores_later:
  assumes "events E i = Value Quit"
  shows "k \<le> i \<Longrightarrow>
    loop_from (E\<lparr>events := (\<lambda>j. if j \<le> i then events E j else ev j)\<rparr>) k w = loop_from E k w"
proof (induction "i - k" arbitrary: k w)
  case 0
  then have k: "k = i" by simp
  have "events (E\<lparr>events := (\<lambda>j. if j \<le> i then events E j else ev j)\<rparr>) i = Value Quit"
    using assms by simp
  then show ?case
    unfolding k by (simp add: loop_from_Quit assms)
next
  case (Suc d)
  then have d: "d = i - Suc k" and le: "Suc k \<le> i" and k: "k \<le> i" by simp_all
  let ?E' = "E\<lparr>events := (\<lambda>j. if j \<le> i then events E j else ev j)\<rparr>"
  have b: "loop_body ?E' k = loop_body E k"
    using k by (intro loop_body_events) simp
  show ?case
    by (subst loop_from.simps, subst (2) loop_from.simps)
      (simp add: b Suc.hyps(1) [OF d le] split: prod.splits sum.splits control.splits)
qed

lemma loop_body_KeyDown:
  assumes "events E i = Value KeyDown"
  shows "loop_body E i w =
    (Inr Continue, w\<lparr>effects := effects w @ [Log [Str ''Received event:'', Ev KeyDown],
                                             Log [Str ''KeyDown event received'']]\<rparr>)"
  using assms by (simp add: loop_body_def next_event_def js_defs)

section \<open>The exit status\<close>

lemma exit_status_append_Exit: "exit_status (xs @ [Exit n]) = Some n"
  by (induction xs) simp_all

lemma program_Some:
  assumes "program_try E = Some r"
  shows "program E =
    Some (case r of
            (Inl error, w) \<Rightarrow>
              w\<lparr>effects := effects w @ [LogError [Str ''Fatal error:'', Thrown error],
                                         Log [Str ''Cleaning up...''], Exit 0]\<rparr>
          | (Inr u, w) \<Rightarrow> w\<lparr>effects := effects w @ [Log [Str ''Cleaning up...''], Exit 0]\<rparr>)"
  using assms by (simp add: program_def js_defs split: prod.splits sum.splits)

lemma program_None: "program_try E = None \<Longrightarrow> program E = None"
  by (simp add: program_def)

lemma program_exit:
  assumes "program E = Some w"
  shows "\<exists>xs. effects w = xs @ [Log [Str ''Cleaning up...''], Exit 0]"
proof (cases "program_try E")
  case None
  then show ?thesis using assms by (simp add: program_None)
next
  case (Some r)
  from program_Some [OF Some] assms show ?thesis
    by (auto split: prod.splits sum.splits)
qed

lemma loop_from_ends:
  assumes "\<And>w. fst (loop_body E i w) \<noteq> Inr Continue"
  shows "k \<le> i \<Longrightarrow> loop_from E k w \<noteq> None"
proof (induction "i - k" arbitrary: k w)
  case 0
  then have k: "k = i" by simp
  obtain c w' where b: "loop_body E i w = (Inr c, w')"
    using loop_body_returns by blast
  with assms [of w] have "c \<noteq> Continue" by auto
  then show ?case
    unfolding k by (subst loop_from.simps) (cases c; simp add: b js_defs)
next
  case (Suc d)
  then have d: "d = i - Suc k" and le: "Suc k \<le> i" by simp_all
  obtain c w' where b: "loop_body E k w = (Inr c, w')"
    using loop_body_returns by blast
  show ?case
  proof (cases c)
    case Continue
    then have "loop_from E k w = loop_from E (Suc k) w'"
      by (subst loop_from.simps) (simp add: b)
    then show ?thesis using Suc.hyps(1) [OF d le] by simp
  next
    case Break
    then show ?thesis by (subst loop_from.simps) (simp add: b js_defs)
  next
    case Return
    then show ?thesis by (subst loop_from.simps) (simp add: b)
  qed
qed

lemma loop_body_abort:
  assumes "events E i = Rejects e" and "is_abort e"
  shows "fst (loop_body E i w) = Inr Break"
  using assms by (simp add: loop_body_def next_event_def js_defs)

lemma program_try_ends:
  assumes "events E i = Value Quit \<or> events E i = Done
           \<or> (\<exists>e. events E i = Rejects e \<and> is_abort e)"
  shows "program_try E \<noteq> None"
proof -
  have "\<And>w. fst (loop_body E i w) \<noteq> Inr Continue"
    using assms by (auto simp: loop_body_Quit loop_body_Done loop_body_abort)
  then have l: "\<And>w. loop E w \<noteq> None"
    unfolding loop_def by (intro loop_from_ends [where i = i]) simp_all
  obtain r w where s: "js_block [getDevice E, constructor E, init]
             (snd (console_log [Str ''Starting application''] start)) = (r, w)"
    by (cases "js_block [getDevice E, constructor E, init]
             (snd (console_log [Str ''Starting application''] start))") blast
  show ?thesis
  proof (cases r)
    case (Inl e)
    then show ?thesis
      unfolding program_try_def s by simp
  next
    case (Inr u)
    from l [of w] obtain x where "loop E w = Some x" by blast
    then show ?thesis
      unfolding program_try_def s using Inr by (simp split: prod.splits sum.splits)
  qed
qed

section \<open>Where the frame counter changes\<close>

lemma keeps_countD: "keeps_count m \<Longrightarrow> frameCount (snd (m w)) = frameCount w"
  by (simp add: keeps_count_def)

lemma keeps_count_return: "keeps_count (js_return x)"
  by (simp add: keeps_count_def js_return_def)

lemma keeps_count_throw: "keeps_count (js_throw e)"
  by (simp add: keeps_count_def js_throw_def)

lemma keeps_count_bind:
  "keeps_count m \<Longrightarrow> (\<And>x. keeps_count (f x)) \<Longrightarrow> keeps_count (js_bind m f)"
  unfolding keeps_count_def js_bind_def
  by (auto split: prod.splits sum.splits) (metis snd_conv)+

lemma keeps_count_seq: "keeps_count m \<Longrightarrow> keeps_count n \<Longrightarrow> keeps_count (js_seq m n)"
  by (simp add: js_seq_def keeps_count_bind)

lemma keeps_count_block_Nil: "keeps_count (js_block [])"
  by (simp add: keeps_count_return)

lemma keeps_count_block_Cons:
  "keeps_count m \<Longrightarrow> keeps_count (js_block ms) \<Longrightarrow> keeps_count (js_block (m # ms))"
  by (simp add: keeps_count_seq)

lemma keeps_count_try_catch:
  "keeps_count m \<Longrightarrow> (\<And>e. keeps_count (h e)) \<Longrightarrow> keeps_count (try_catch m h)"
  unfolding keeps_count_def try_catch_def
  by (auto split: prod.splits sum.splits) (metis snd_conv)+

lemma keeps_count_emit: "keeps_count (emit x)"
  by (simp add: keeps_count_def emit_def)

lemma keeps_count_console_log: "keeps_count (console_log args)"
  by (simp add: console_log_def keeps_count_emit)

lemma keeps_count_console_error: "keeps_count (console_error args)"
  by (simp add: console_error_def keeps_count_emit)

lemma keeps_count_call: "keeps_count (call E c)"
  by (simp add: keeps_count_def call_def emit_def split: option.splits)

lemma keeps_count_run_command: "keeps_count (run_command c)"
  by (simp add: keeps_count_def run_command_def split: gpu_command.splits option.splits)

lemma keeps_count_queue_submit: "keeps_count (queue_submit E cs)"
  unfolding queue_submit_def
proof (intro keeps_count_seq keeps_count_call)
  show "keeps_count (js_block (map run_command cs))"
    by (induction cs) (simp_all add: keeps_count_return keeps_count_seq keeps_count_run_command)
qed

lemma keeps_count_set_mapstate: "keeps_count (set_mapstate h m)"
  by (simp add: keeps_count_def set_mapstate_def)

lemmas keeps_count_intros = keeps_count_return keeps_count_throw keeps_count_bind
  keeps_count_seq keeps_count_block_Nil keeps_count_block_Cons keeps_count_try_catch
  keeps_count_emit keeps_count_console_log keeps_count_console_error keeps_count_call
  keeps_count_queue_submit keeps_count_set_mapstate

lemmas keeps_count_leaf = keeps_count_def js_defs call_def

lemma keeps_count_readback: "keeps_count (readback E)"
  unfolding readback_def createBuffer_def mapAsync_def getMappedRange_def
  by (intro keeps_count_intros) (simp_all add: keeps_count_leaf)

lemma keeps_count_saveRenderedImage: "keeps_count (saveRenderedImage E data width height)"
  unfolding saveRenderedImage_def
  by (intro keeps_count_intros) (simp_all add: keeps_count_leaf split: option.splits)

lemma keeps_count_consume: "keeps_count (consume E h data)"
  unfolding consume_def unmap_def
  by (intro keeps_count_intros keeps_count_saveRenderedImage)
    (simp_all add: keeps_count_leaf split: option.splits)

lemma render_count:
  assumes run: "render E v = (r, v')"
  shows "frameCount v' = (case r of Inl e \<Rightarrow> frameCount v | Inr u \<Rightarrow> increment (frameCount v))"
proof -
  define tc where "tc = try_catch
          (js_block
             [call E CreateBindGroupLayout,
              call E CreatePipelineLayout,
              call E CreateShaderModule,
              call E CreateComputePipeline,
              call E CreateBindGroup,
              call E CreateCommandEncoder,
              call E BeginComputePass,
              call E SetPipeline,
              call E SetBindGroup,
              call E (DispatchWorkgroups (ceil_div 800 16) (ceil_div 600 16)),
              call E PassEnd,
              call E Finish,
              queue_submit E [ComputePass (ceil_div 800 16) (ceil_div 600 16)],
              console_log [Str ''Render pass completed'']])
          (\<lambda>error.
             js_seq (console_error [Str ''Error during rendering:'', Thrown error])
                    (js_throw error))"
  let ?v1 = "v\<lparr>effects := effects v @ [Log [Str ''Rendering frame'', Num (int (frameCount v))]]\<rparr>"
  have shape: "render E =
     js_block
       [(\<lambda>w. console_log [Str ''Rendering frame'', Num (int (frameCount w))] w),
        tc,
        (\<lambda>w. (Inr (), w\<lparr>frameCount := increment (frameCount w)\<rparr>))]"
    unfolding render_def tc_def by (rule refl)
  have k: "keeps_count tc"
    unfolding tc_def by (intro keeps_count_intros)
  obtain r2 v2 where t: "tc ?v1 = (r2, v2)"
    by (cases "tc ?v1") blast
  from keeps_countD [OF k, of ?v1] t have c: "frameCount v2 = frameCount v"
    by simp
  have "render E v =
    (case r2 of Inl e \<Rightarrow> (Inl e, v2)
     | Inr u \<Rightarrow> (Inr (), v2\<lparr>frameCount := increment (frameCount v2)\<rparr>))"
    unfolding shape
    by (simp add: js_seq_def js_bind_def js_return_def console_log_def emit_def t
        split: sum.splits)
  with run c show ?thesis
    by (auto split: sum.splits)
qed

lemma update_count:
  "frameCount (snd (update E v))
     = frameCount (snd (render E
         (v\<lparr>effects := effects v @ [Log [Str ''Updating frame'', Num (int (frameCount v))]]\<rparr>)))"
proof -
  let ?v1 = "v\<lparr>effects := effects v @ [Log [Str ''Updating frame'', Num (int (frameCount v))]]\<rparr>"
  define rest where
    "rest = js_bind (readback E) (\<lambda>(stagingBuffer, data). consume E stagingBuffer data)"
  have k: "keeps_count rest"
    unfolding rest_def
    by (intro keeps_count_bind keeps_count_readback)
      (simp add: keeps_count_consume split: prod.splits)
  have shape: "update_try E = js_seq (render E) rest"
    unfolding update_try_def rest_def by (rule refl)
  obtain r v2 where r: "render E ?v1 = (r, v2)"
    by (cases "render E ?v1") blast
  obtain r3 v3 where t: "rest v2 = (r3, v3)"
    by (cases "rest v2") blast
  from keeps_countD [OF k, of v2] t have c: "frameCount v3 = frameCount v2"
    by simp
  show ?thesis
    unfolding update_def shape
    using c
    by (simp add: js_seq_def js_bind_def try_catch_def console_log_def console_error_def
        emit_def r t split: sum.splits)
qed

lemma constructor_ok:
  assumes "quiet_from E (length (effects v))"
  shows "constructor E v =
    (Inr (), v\<lparr>effects := effects v @
                 [Call (WindowBuild ''Simple Renderer'' 800 600), Call WindowCanvas,
                  Log [Str ''SimpleRenderer constructed''], Call (CreateBuffer 1920000)],
               renderBuffer := replicate 480000 0,
               frameCount := 0\<rparr>)"
  using assms
  by (simp add: constructor_def js_defs call_quiet quiet_from_Suc new_buffer_def cong: js_congs)


section \<open>The claims\<close>

text \<open>
  C1, as amended. In a run where nothing throws, with the render buffer of \<open>800 * 600\<close>
  words, \<open>render\<close> followed by the readback of \<open>update\<close> gives a view of 1,920,000 bytes
  in which every 4-byte texel is the bytes \<open>00 FF 00 FF\<close> of \<open>0xFF00FF00\<close>. Two bytes of
  each texel are zero: the count of non-zero bytes is 960,000 and the first non-zero byte
  is at index 1.
\<close>

theorem frame_snapshot:
  assumes "quiet_from E (length (effects w))" and "length (renderBuffer w) = 800 * 600"
  shows "\<exists>h w'. js_seq (render E) (readback E) w = (Inr (h, View h), w')
           \<and> length (view_bytes w' (View h)) = 1920000
           \<and> (\<forall>k<800 * 600. take 4 (drop (4 * k) (view_bytes w' (View h))) = bytes_of_u32 0xFF00FF00)
           \<and> bytes_of_u32 0xFF00FF00 = [0x00, 0xFF, 0x00, 0xFF]
           \<and> length (filter nonzero (view_bytes w' (View h))) = 960000
           \<and> findIndex nonzero (view_bytes w' (View h)) = 1"
proof -
  let ?h = "length (staging w)"
  let ?w' = "w\<lparr>effects := effects w @ render_effects (frameCount w) @ readback_effects ?h,
       renderBuffer := green_frame,
       frameCount := increment (frameCount w),
       staging := staging w @ [\<lparr>contents = green_frame, mapstate = Mapped\<rparr>]\<rparr>"
  have len: "length (renderBuffer w) = 480000" using assms(2) by simp
  have run: "js_seq (render E) (readback E) w = (Inr (?h, View ?h), ?w')"
    using assms(1) len by (rule cycle_ok)
  have data: "view_bytes ?w' (View ?h) = green_bytes"
    by (simp add: view_bytes_View green_bytes_def)
  show ?thesis
    unfolding run
    by (intro exI [of _ ?h] exI [of _ ?w'])
      (simp only: data length_green_bytes nonzero_green_bytes findIndex_green_bytes
        bytes_of_green_pixel, simp add: texel_green_bytes bytes_of_green_pixel)
qed

theorem frame_snapshot_witness:
  "quiet_from calm (length (effects fresh)) \<and> length (renderBuffer fresh) = 800 * 600
   \<and> (\<exists>h w'. js_seq (render calm) (readback calm) fresh = (Inr (h, View h), w')
           \<and> length (view_bytes w' (View h)) = 1920000
           \<and> length (filter nonzero (view_bytes w' (View h))) = 960000
           \<and> findIndex nonzero (view_bytes w' (View h)) = 1)"
proof -
  have q: "quiet_from calm (length (effects fresh))" by (rule quiet_calm)
  have l: "length (renderBuffer fresh) = 800 * 600" by (simp add: length_renderBuffer_fresh)
  from frame_snapshot [OF q l] show ?thesis using q l by blast
qed

text \<open>
  The numbers of the claim, 1,920,000 non-zero bytes and first index 0, are not those of
  the first frame of a run without faults: neither what the view holds nor what \<open>update\<close>
  prints.
\<close>

theorem frame_snapshot_counterexample:
  "length (filter nonzero (view_bytes (snd (js_seq (render calm) (readback calm) fresh)) (View 0)))
     = 960000
   \<and> findIndex nonzero (view_bytes (snd (js_seq (render calm) (readback calm) fresh)) (View 0)) = 1
   \<and> Log [Str ''Non-zero bytes:'', Num 1920000] \<notin> set (effects (snd (update calm fresh)))
   \<and> Log [Str ''First non-zero byte index:'', Num 0] \<notin> set (effects (snd (update calm fresh)))"
proof -
  have c: "view_bytes (snd (js_seq (render calm) (readback calm) fresh)) (View 0) = green_bytes"
    by (simp add: cycle_ok quiet_calm length_renderBuffer_fresh view_bytes_View green_bytes_def
        fresh_eq)
  have u: "effects (snd (update calm fresh)) = effects fresh @ update_effects 0 0"
    by (simp add: update_ok quiet_calm length_renderBuffer_fresh) (simp add: fresh_eq)
  show ?thesis
    unfolding c u
    by (simp add: nonzero_green_bytes findIndex_green_bytes fresh_eq update_effects_def
        render_effects_def readback_effects_def consume_effects_def save_effects_def
        green_pixel_line_def)
qed

text \<open>
  C2. With the render buffer of \<open>800 * 600\<close> words bound, every invocation of the shader,
  whatever its global id, ends without an out-of-bounds store and leaves the length of the
  buffer as it was; an invocation whose linear index is not below \<open>800 * 600\<close> leaves the
  buffer unchanged, and one that changes the buffer has an index below \<open>800 * 600\<close>, inside
  the buffer. The whole dispatch of \<open>render\<close> ends without an out-of-bounds store, although
  its grid has the rows 600 to 607 past the edge (600 is not a multiple of 16): their
  invocations are part of the grid and do nothing.
\<close>

theorem shader_guard:
  assumes "length buf = 800 * 600"
  shows "(\<exists>buf'. main g buf = Some buf' \<and> length buf' = length buf
            \<and> (\<not> linear_index g < 800 * 600 \<longrightarrow> buf' = buf)
            \<and> (buf' \<noteq> buf \<longrightarrow> linear_index g < 800 * 600 \<and> unat (linear_index g) < length buf))
         \<and> dispatchWorkgroups (ceil_div 800 16) (ceil_div 600 16) buf \<noteq> None
         \<and> (\<forall>x y. x < 800 \<and> 600 \<le> y \<and> y < 608 \<longrightarrow>
               Vec3 (of_nat x) (of_nat y) 0 \<in> set (invocations (ceil_div 800 16) (ceil_div 600 16))
               \<and> main (Vec3 (of_nat x) (of_nat y) 0) buf = Some buf)"
proof (intro conjI allI impI)
  have len: "length buf = 480000" using assms by simp
  show "\<exists>buf'. main g buf = Some buf' \<and> length buf' = length buf
            \<and> (\<not> linear_index g < 800 * 600 \<longrightarrow> buf' = buf)
            \<and> (buf' \<noteq> buf \<longrightarrow> linear_index g < 800 * 600 \<and> unat (linear_index g) < length buf)"
    using len by (auto simp: main_in_bounds [OF len] linear_index_lt)
  show "dispatchWorkgroups (ceil_div 800 16) (ceil_div 600 16) buf \<noteq> None"
    using dispatch_green [OF len] by (simp add: ceil_div_800 ceil_div_600)
next
  fix x y :: nat
  assume xy: "x < 800 \<and> 600 \<le> y \<and> y < 608"
  have len: "length buf = 480000" using assms by simp
  from xy have "x < 50 * 16" and "y < 38 * 16" by simp_all
  then show "Vec3 (of_nat x) (of_nat y) 0
      \<in> set (invocations (ceil_div 800 16) (ceil_div 600 16))"
    unfolding ceil_div_800 ceil_div_600 by (rule in_invocations)
  have "unat (linear_index (Vec3 (of_nat x) (of_nat y) 0)) = y * 800 + x"
    using xy by (intro linear_index_of_nat) simp
  then have "\<not> linear_index (Vec3 (of_nat x) (of_nat y) 0) < 480000"
    using xy by (simp add: linear_index_lt)
  then show "main (Vec3 (of_nat x) (of_nat y) 0) buf = Some buf"
    by (simp add: main_in_bounds [OF len])
qed

theorem shader_guard_witness:
  "length (replicate 480000 (0 :: u32)) = 800 * 600
   \<and> \<not> linear_index (Vec3 0 600 0) < 800 * 600
   \<and> main (Vec3 0 600 0) (replicate 480000 0) = Some (replicate 480000 0)
   \<and> Vec3 0 600 0 \<in> set (invocations (ceil_div 800 16) (ceil_div 600 16))
   \<and> linear_index (Vec3 1 0 0) < 800 * 600
   \<and> (\<exists>buf'. main (Vec3 1 0 0) (replicate 480000 0) = Some buf' \<and> length buf' = 480000)
   \<and> dispatchWorkgroups (ceil_div 800 16) (ceil_div 600 16) (replicate 480000 0) \<noteq> None"
proof -
  have h: "length (replicate 480000 (0 :: u32)) = 800 * 600" by simp
  have xy: "(0 :: nat) < 800 \<and> (600 :: nat) \<le> 600 \<and> (600 :: nat) < 608" by simp
  have out: "\<not> linear_index (Vec3 0 600 0) < 800 * 600"
    and inside: "linear_index (Vec3 1 0 0) < 800 * 600"
    by (simp_all add: linear_index_def)
  from shader_guard [OF h, of "Vec3 0 600 0"] xy
  have "Vec3 (of_nat 0) (of_nat 600) 0 \<in> set (invocations (ceil_div 800 16) (ceil_div 600 16))
      \<and> main (Vec3 (of_nat 0) (of_nat 600) 0) (replicate 480000 0) = Some (replicate 480000 0)"
    and "dispatchWorkgroups (ceil_div 800 16) (ceil_div 600 16) (replicate 480000 0) \<noteq> None"
    by blast+
  moreover from shader_guard [OF h, of "Vec3 1 0 0"]
  have "\<exists>buf'. main (Vec3 1 0 0) (replicate 480000 0) = Some buf' \<and> length buf' = 480000"
    by auto
  ultimately show ?thesis using h out inside by simp
qed

text \<open>
  C3. In a run where nothing throws, with the render buffer of \<open>800 * 600\<close> words, two
  cycles of \<open>render\<close> and readback in a row give the same bytes: the view of the first
  cycle, read when it was made, equals the view of the second, and the second cycle leaves
  the bytes of the first view as they were. The same holds for two calls of \<open>update\<close>: the
  two byte arrays that they hand to the texture are equal.
\<close>

theorem repeated_frames_agree:
  assumes "quiet_from E (length (effects w))" and "length (renderBuffer w) = 800 * 600"
  shows "(\<exists>h1 w1 h2 w2.
            js_seq (render E) (readback E) w = (Inr (h1, View h1), w1)
          \<and> js_seq (render E) (readback E) w1 = (Inr (h2, View h2), w2)
          \<and> view_bytes w1 (View h1) = view_bytes w2 (View h2)
          \<and> view_bytes w2 (View h1) = view_bytes w1 (View h1))
       \<and> (\<exists>u1 u2 d. update E w = (Inr (), u1) \<and> update E u1 = (Inr (), u2)
          \<and> uploads (effects u2) = uploads (effects w) @ [d, d])"
proof
  have len: "length (renderBuffer w) = 480000" using assms(2) by simp
  let ?h = "length (staging w)"
  let ?w1 = "w\<lparr>effects := effects w @ render_effects (frameCount w) @ readback_effects ?h,
       renderBuffer := green_frame,
       frameCount := increment (frameCount w),
       staging := staging w @ [\<lparr>contents = green_frame, mapstate = Mapped\<rparr>]\<rparr>"
  have r1: "js_seq (render E) (readback E) w = (Inr (?h, View ?h), ?w1)"
    using assms(1) len by (rule cycle_ok)
  have q1: "quiet_from E (length (effects ?w1))"
    using assms(1) by (simp add: quiet_from_add)
  have l1: "length (renderBuffer ?w1) = 480000"
    by (simp add: length_green_frame)
  obtain w2 where r2: "js_seq (render E) (readback E) ?w1 = (Inr (Suc ?h, View (Suc ?h)), w2)"
    and w2: "staging w2 = staging w @ [\<lparr>contents = green_frame, mapstate = Mapped\<rparr>,
                                       \<lparr>contents = green_frame, mapstate = Mapped\<rparr>]"
    using cycle_ok [OF q1 l1] by simp
  have "view_bytes ?w1 (View ?h) = view_bytes w2 (View (Suc ?h))"
    and "view_bytes w2 (View ?h) = view_bytes ?w1 (View ?h)"
    by (simp_all add: view_bytes_View w2 nth_append)
  then show "\<exists>h1 w1 h2 w2.
            js_seq (render E) (readback E) w = (Inr (h1, View h1), w1)
          \<and> js_seq (render E) (readback E) w1 = (Inr (h2, View h2), w2)
          \<and> view_bytes w1 (View h1) = view_bytes w2 (View h2)
          \<and> view_bytes w2 (View h1) = view_bytes w1 (View h1)"
    using r1 r2 by blast
next
  have len: "length (renderBuffer w) = 480000" using assms(2) by simp
  let ?u1 = "w\<lparr>effects := effects w @ update_effects (frameCount w) (length (staging w)),
                renderBuffer := green_frame,
                frameCount := increment (frameCount w),
                staging := staging w @ [\<lparr>contents = green_frame, mapstate = Unmapped\<rparr>]\<rparr>"
  have a: "update E w = (Inr (), ?u1)"
    using assms(1) len by (rule update_ok)
  have q1: "quiet_from E (length (effects ?u1))"
    using assms(1) by (simp add: quiet_from_add)
  have l1: "length (renderBuffer ?u1) = 480000"
    by (simp add: length_green_frame)
  obtain u2 where b: "update E ?u1 = (Inr (), u2)"
    and e: "effects u2 = effects ?u1 @ update_effects (frameCount ?u1) (length (staging ?u1))"
    using update_ok [OF q1 l1] by simp
  have "uploads (effects u2) = uploads (effects w) @ [green_bytes, green_bytes]"
    unfolding e by (simp add: uploads_append uploads_update_effects)
  then show "\<exists>u1 u2 d. update E w = (Inr (), u1) \<and> update E u1 = (Inr (), u2)
          \<and> uploads (effects u2) = uploads (effects w) @ [d, d]"
    using a b by blast
qed

theorem repeated_frames_agree_witness:
  "quiet_from calm (length (effects fresh)) \<and> length (renderBuffer fresh) = 800 * 600
   \<and> (\<exists>u1 u2 d. update calm fresh = (Inr (), u1) \<and> update calm u1 = (Inr (), u2)
          \<and> uploads (effects u2) = uploads (effects fresh) @ [d, d])"
proof -
  have q: "quiet_from calm (length (effects fresh))" by (rule quiet_calm)
  have l: "length (renderBuffer fresh) = 800 * 600" by (simp add: length_renderBuffer_fresh)
  from repeated_frames_agree [OF q l] show ?thesis using q l by blast
qed

text \<open>
  C4, as amended. The pipeline is not kept between frames: in a run where nothing throws,
  every call of \<open>render\<close> creates one more bind group layout, one more pipeline layout,
  one more shader module, one more compute pipeline and one more bind group; its effects
  are exactly the list below. What is created once and used again by every call is the
  render buffer: the constructor creates that one buffer of \<open>800 * 600 * 4\<close> bytes, and
  \<open>render\<close> creates no buffer, writes the frame into the render buffer, keeps its length
  and leaves the staging buffers alone.
\<close>

theorem render_builds_pipeline:
  assumes "quiet_from E (length (effects w))" and "length (renderBuffer w) = 800 * 600"
  shows "\<exists>w'. render E w = (Inr (), w')
     \<and> count_list (effects w') (Call CreateBindGroupLayout)
         = count_list (effects w) (Call CreateBindGroupLayout) + 1
     \<and> count_list (effects w') (Call CreatePipelineLayout)
         = count_list (effects w) (Call CreatePipelineLayout) + 1
     \<and> count_list (effects w') (Call CreateShaderModule)
         = count_list (effects w) (Call CreateShaderModule) + 1
     \<and> count_list (effects w') (Call CreateComputePipeline)
         = count_list (effects w) (Call CreateComputePipeline) + 1
     \<and> count_list (effects w') (Call CreateBindGroup)
         = count_list (effects w) (Call CreateBindGroup) + 1
     \<and> effects w' = effects w @
          [Log [Str ''Rendering frame'', Num (int (frameCount w))],
           Call CreateBindGroupLayout, Call CreatePipelineLayout, Call CreateShaderModule,
           Call CreateComputePipeline, Call CreateBindGroup, Call CreateCommandEncoder,
           Call BeginComputePass, Call SetPipeline, Call SetBindGroup,
           Call (DispatchWorkgroups 50 38), Call PassEnd, Call Finish, Call QueueSubmit,
           Log [Str ''Render pass completed'']]
     \<and> count_list (effects w') (Call (CreateBuffer n)) = count_list (effects w) (Call (CreateBuffer n))
     \<and> length (renderBuffer w') = length (renderBuffer w)
     \<and> renderBuffer w' = green_frame
     \<and> staging w' = staging w
     \<and> (\<exists>v. constructor E w = (Inr (), v)
          \<and> count_list (effects v) (Call (CreateBuffer (800 * 600 * 4)))
              = count_list (effects w) (Call (CreateBuffer (800 * 600 * 4))) + 1
          \<and> length (renderBuffer v) = 800 * 600)"
proof -
  have len: "length (renderBuffer w) = 480000" using assms(2) by simp
  show ?thesis
    unfolding render_ok [OF assms(1) len] constructor_ok [OF assms(1)]
    by (simp add: render_effects_def length_green_frame len)
qed

theorem render_builds_pipeline_witness:
  "quiet_from calm (length (effects fresh)) \<and> length (renderBuffer fresh) = 800 * 600
   \<and> count_list (effects fresh) (Call (CreateBuffer (800 * 600 * 4))) = 1
   \<and> (\<exists>w'. render calm fresh = (Inr (), w')
     \<and> count_list (effects w') (Call CreateBindGroupLayout)
         = count_list (effects fresh) (Call CreateBindGroupLayout) + 1
     \<and> count_list (effects w') (Call CreatePipelineLayout)
         = count_list (effects fresh) (Call CreatePipelineLayout) + 1
     \<and> count_list (effects w') (Call CreateShaderModule)
         = count_list (effects fresh) (Call CreateShaderModule) + 1
     \<and> count_list (effects w') (Call CreateComputePipeline)
         = count_list (effects fresh) (Call CreateComputePipeline) + 1
     \<and> count_list (effects w') (Call CreateBindGroup)
         = count_list (effects fresh) (Call CreateBindGroup) + 1
     \<and> count_list (effects w') (Call (CreateBuffer (800 * 600 * 4))) = 1)"
proof -
  have q: "quiet_from calm (length (effects fresh))" by (rule quiet_calm)
  have l: "length (renderBuffer fresh) = 800 * 600" by (simp add: length_renderBuffer_fresh)
  have b: "count_list (effects fresh) (Call (CreateBuffer (800 * 600 * 4))) = 1"
    by (simp add: fresh_eq)
  from render_builds_pipeline [OF q l, of "800 * 600 * 4"] obtain w' where
    "render calm fresh = (Inr (), w')"
    and "count_list (effects w') (Call CreateBindGroupLayout)
         = count_list (effects fresh) (Call CreateBindGroupLayout) + 1"
    and "count_list (effects w') (Call CreatePipelineLayout)
         = count_list (effects fresh) (Call CreatePipelineLayout) + 1"
    and "count_list (effects w') (Call CreateShaderModule)
         = count_list (effects fresh) (Call CreateShaderModule) + 1"
    and "count_list (effects w') (Call CreateComputePipeline)
         = count_list (effects fresh) (Call CreateComputePipeline) + 1"
    and "count_list (effects w') (Call CreateBindGroup)
         = count_list (effects fresh) (Call CreateBindGroup) + 1"
    and "count_list (effects w') (Call (CreateBuffer (800 * 600 * 4)))
         = count_list (effects fresh) (Call (CreateBuffer (800 * 600 * 4)))"
    by blast
  then show ?thesis using q l b by auto
qed

text \<open>
  After the first \<open>render\<close> of a run without faults one compute pipeline has been created;
  the second \<open>render\<close> creates a second one, and a second shader module, instead of using
  the first again.
\<close>

theorem pipeline_held_counterexample:
  "count_list (effects (snd (render calm fresh))) (Call CreateComputePipeline) = 1
   \<and> count_list (effects (snd (render calm (snd (render calm fresh))))) (Call CreateComputePipeline) = 2
   \<and> count_list (effects (snd (render calm (snd (render calm fresh))))) (Call CreateShaderModule) = 2"
  by (simp add: render_ok quiet_calm length_renderBuffer_fresh length_green_frame)
     (simp add: fresh_eq render_effects_def)

text \<open>
  C5, as amended. The bytes that \<open>update\<close> reads are not copied out of the mapped range:
  \<^verbatim>\<open>data\<close> is a view of it. In a run where nothing throws the view holds the bytes of the
  frame when it is made, the encoder and the texture receive those bytes before the
  staging buffer is unmapped, and after the unmapping the view is empty. The staging buffer
  itself keeps the frame. A following \<open>render\<close> leaves the staging buffers as they are,
  and a following \<open>update\<close> leaves them as they are and adds one: it creates a new
  buffer, and its copy, its mapping and its unmapping are those of the new buffer, none
  of the old one.
\<close>

theorem snapshot_is_view:
  assumes "quiet_from E (length (effects w))" and "length (renderBuffer w) = 800 * 600"
  shows "\<exists>h w1 w2 w3.
            js_seq (render E) (readback E) w = (Inr (h, View h), w1)
          \<and> consume E h (View h) w1 = (Inr (), w2)
          \<and> update E w2 = (Inr (), w3)
          \<and> view_bytes w1 (View h) = green_bytes
          \<and> precedes (Call (PngDataSet green_bytes)) (Call (Unmap h))
                (drop (length (effects w1)) (effects w2))
          \<and> precedes (Call (TextureUpdate green_bytes (800 * 4))) (Call (Unmap h))
                (drop (length (effects w1)) (effects w2))
          \<and> view_bytes w2 (View h) = []
          \<and> contents (staging w2 ! h) = green_frame
          \<and> contents (staging w3 ! h) = green_frame
          \<and> length (staging w2) = Suc h
          \<and> staging (snd (render E w2)) = staging w2
          \<and> staging w3 = staging w2 @ [\<lparr>contents = green_frame, mapstate = Unmapped\<rparr>]
          \<and> Call (CreateBuffer (800 * 600 * 4)) \<in> set (drop (length (effects w2)) (effects w3))
          \<and> Call (CopyBufferToBuffer (Suc h) (800 * 600 * 4))
                \<in> set (drop (length (effects w2)) (effects w3))
          \<and> Call (MapAsync (Suc h)) \<in> set (drop (length (effects w2)) (effects w3))
          \<and> Call (GetMappedRange (Suc h)) \<in> set (drop (length (effects w2)) (effects w3))
          \<and> Call (Unmap (Suc h)) \<in> set (drop (length (effects w2)) (effects w3))
          \<and> (\<forall>n. Call (CopyBufferToBuffer h n) \<notin> set (drop (length (effects w2)) (effects w3)))
          \<and> Call (MapAsync h) \<notin> set (drop (length (effects w2)) (effects w3))
          \<and> Call (GetMappedRange h) \<notin> set (drop (length (effects w2)) (effects w3))
          \<and> Call (Unmap h) \<notin> set (drop (length (effects w2)) (effects w3))"
proof -
  have len: "length (renderBuffer w) = 480000" using assms(2) by simp
  let ?h = "length (staging w)"
  let ?w1 = "w\<lparr>effects := effects w @ render_effects (frameCount w) @ readback_effects ?h,
       renderBuffer := green_frame,
       frameCount := increment (frameCount w),
       staging := staging w @ [\<lparr>contents = green_frame, mapstate = Mapped\<rparr>]\<rparr>"
  let ?w2 = "?w1\<lparr>effects := effects ?w1 @ consume_effects (frameCount ?w1) ?h,
       staging := staging w @ [\<lparr>contents = green_frame, mapstate = Unmapped\<rparr>]\<rparr>"
  have r1: "js_seq (render E) (readback E) w = (Inr (?h, View ?h), ?w1)"
    using assms(1) len by (rule cycle_ok)
  have q1: "quiet_from E (length (effects ?w1))"
    using assms(1) by (simp add: quiet_from_add)
  have r2: "consume E ?h (View ?h) ?w1 = (Inr (), ?w2)"
    by (rule consume_ok [OF q1]) simp_all
  have q2: "quiet_from E (length (effects ?w2))"
    using assms(1) by (simp add: quiet_from_add)
  have l2: "length (renderBuffer ?w2) = 480000"
    by (simp add: length_green_frame)
  obtain w3 where r3: "update E ?w2 = (Inr (), w3)"
    and s3: "staging w3 = staging ?w2 @ [\<lparr>contents = green_frame, mapstate = Unmapped\<rparr>]"
    and e3: "effects w3 = effects ?w2 @ update_effects (frameCount ?w2) (length (staging ?w2))"
    using update_ok [OF q2 l2] by simp
  have fx: "drop (length (effects ?w2)) (effects w3) = update_effects (frameCount ?w2) (Suc ?h)"
    unfolding e3 by simp
  have n2: "length (staging ?w2) = Suc ?h"
    by simp
  have rs: "staging (snd (render E ?w2)) = staging ?w2"
    by (subst render_ok [OF q2 l2]) simp
  have i1: "Call (CreateBuffer (800 * 600 * 4)) \<in> set (drop (length (effects ?w2)) (effects w3))"
    and i2: "Call (CopyBufferToBuffer (Suc ?h) (800 * 600 * 4))
                \<in> set (drop (length (effects ?w2)) (effects w3))"
    and i3: "Call (MapAsync (Suc ?h)) \<in> set (drop (length (effects ?w2)) (effects w3))"
    and i4: "Call (GetMappedRange (Suc ?h)) \<in> set (drop (length (effects ?w2)) (effects w3))"
    and i5: "Call (Unmap (Suc ?h)) \<in> set (drop (length (effects ?w2)) (effects w3))"
    and o1: "\<forall>n. Call (CopyBufferToBuffer ?h n) \<notin> set (drop (length (effects ?w2)) (effects w3))"
    and o2: "Call (MapAsync ?h) \<notin> set (drop (length (effects ?w2)) (effects w3))"
    and o3: "Call (GetMappedRange ?h) \<notin> set (drop (length (effects ?w2)) (effects w3))"
    and o4: "Call (Unmap ?h) \<notin> set (drop (length (effects ?w2)) (effects w3))"
    unfolding fx by (simp_all add: frame_effects_defs)
  have v1: "view_bytes ?w1 (View ?h) = green_bytes"
    by (simp add: view_bytes_View green_bytes_def)
  have v2: "view_bytes ?w2 (View ?h) = []"
    by (simp add: view_bytes_View)
  have p1: "precedes (Call (PngDataSet green_bytes)) (Call (Unmap ?h))
                (drop (length (effects ?w1)) (effects ?w2))"
    by (simp add: frame_effects_defs)
  have p2: "precedes (Call (TextureUpdate green_bytes (800 * 4))) (Call (Unmap ?h))
                (drop (length (effects ?w1)) (effects ?w2))"
    by (simp add: frame_effects_defs)
  have c2: "contents (staging ?w2 ! ?h) = green_frame"
    by simp
  have c3: "contents (staging w3 ! ?h) = green_frame"
    unfolding s3 by (simp add: nth_append)
  show ?thesis
    apply (rule exI [of _ ?h], rule exI [of _ ?w1], rule exI [of _ ?w2], rule exI [of _ w3])
    apply (intro conjI)
    apply (fact r1 r2 r3 v1 v2 p1 p2 c2 c3 n2 rs s3 i1 i2 i3 i4 i5 o1 o2 o3 o4)+
    done
qed

theorem snapshot_is_view_witness:
  "quiet_from calm (length (effects fresh)) \<and> length (renderBuffer fresh) = 800 * 600
   \<and> (\<exists>h w1 w2 w3. js_seq (render calm) (readback calm) fresh = (Inr (h, View h), w1)
          \<and> consume calm h (View h) w1 = (Inr (), w2)
          \<and> update calm w2 = (Inr (), w3)
          \<and> view_bytes w1 (View h) = green_bytes
          \<and> view_bytes w2 (View h) = []
          \<and> staging w3 = staging w2 @ [\<lparr>contents = green_frame, mapstate = Unmapped\<rparr>]
          \<and> Call (Unmap h) \<notin> set (drop (length (effects w2)) (effects w3)))"
proof -
  have q: "quiet_from calm (length (effects fresh))" by (rule quiet_calm)
  have l: "length (renderBuffer fresh) = 800 * 600" by (simp add: length_renderBuffer_fresh)
  from snapshot_is_view [OF q l] show ?thesis using q l by blast
qed

text \<open>
  In the first frame of a run without faults the view has 1,920,000 bytes when the
  readback has made it and none when the \<^verbatim>\<open>try\<close> block of \<open>update\<close> is through: its
  contents are not stable across the unmapping.
\<close>

theorem snapshot_detached_counterexample:
  "length (view_bytes (snd (js_seq (render calm) (readback calm) fresh)) (View 0)) = 1920000
   \<and> view_bytes
         (snd (consume calm 0 (View 0) (snd (js_seq (render calm) (readback calm) fresh))))
         (View 0) = []
   \<and> update_try calm fresh
       = (Inr (), snd (consume calm 0 (View 0) (snd (js_seq (render calm) (readback calm) fresh))))"
proof -
  let ?w1 = "fresh\<lparr>effects := effects fresh @ render_effects (frameCount fresh) @ readback_effects 0,
       renderBuffer := green_frame,
       frameCount := increment (frameCount fresh),
       staging := [\<lparr>contents = green_frame, mapstate = Mapped\<rparr>]\<rparr>"
  have s: "staging fresh = []" by (simp add: fresh_eq)
  have r1: "js_seq (render calm) (readback calm) fresh = (Inr (0, View 0), ?w1)"
    using cycle_ok [OF quiet_calm length_renderBuffer_fresh] by (simp add: s)
  have r2: "consume calm 0 (View 0) ?w1 =
    (Inr (), ?w1\<lparr>effects := effects ?w1 @ consume_effects (frameCount ?w1) 0,
       staging := [] @ [\<lparr>contents = green_frame, mapstate = Unmapped\<rparr>]\<rparr>)"
    by (rule consume_ok [OF quiet_calm]) simp_all
  have r3: "update_try calm fresh = (Inr (), snd (consume calm 0 (View 0) ?w1))"
    unfolding r2
    by (simp add: update_try_ok [OF quiet_calm length_renderBuffer_fresh] s)
  show ?thesis
    unfolding r1 snd_conv
    using r3 unfolding r2
    by (simp add: view_bytes_View green_bytes_def [symmetric] length_green_bytes)
qed

text \<open>
  C6, as amended. In a run where nothing throws, with the frame counter below \<open>2 ^ 53\<close>,
  one call of \<open>update\<close> does its steps in this order: the compute dispatch and its
  submission; the increment of the frame counter, once, at the end of \<open>render\<close> and so
  before the readback; the copy to the staging buffer and its mapping; the image encoder,
  which already prints the incremented counter; then the presentation (texture upload,
  clear, copy, present); then the unmapping. The last effect is the line
  \<^verbatim>\<open>Frame updated successfully\<close>. The increment is where \<open>render\<close> returns: in every
  environment a \<open>render\<close> that throws, as it does when the dispatch or the submission
  throws, leaves the counter as it was, a \<open>render\<close> that returns has incremented it, and
  the counter after \<open>update\<close> is the counter after its \<open>render\<close>, whatever happens in
  the readback, the encoder or the presentation.
\<close>

theorem redraw_order:
  assumes "quiet_from E (length (effects w))" and "length (renderBuffer w) = 800 * 600"
    and "frameCount w < 2 ^ 53"
  shows "\<exists>w' fx. update E w = (Inr (), w')
     \<and> effects w' = effects w @ fx
     \<and> frameCount w' = frameCount w + 1
     \<and> frameCount (snd (render E w)) = frameCount w + 1
     \<and> precedes (Call (DispatchWorkgroups 50 38)) (Call QueueSubmit) fx
     \<and> precedes (Call QueueSubmit) (Call (CopyBufferToBuffer (length (staging w)) (800 * 600 * 4))) fx
     \<and> precedes (Call (CopyBufferToBuffer (length (staging w)) (800 * 600 * 4)))
          (Call (MapAsync (length (staging w)))) fx
     \<and> precedes (Call (MapAsync (length (staging w)))) (Call (PngDataSet green_bytes)) fx
     \<and> precedes (Call (PngDataSet green_bytes)) (Call PngSyncWrite) fx
     \<and> precedes (Call PngSyncWrite)
          (Log [Template [Str ''Rendered image saved as rendered_image_'',
                          Num (int (frameCount w + 1)), Str ''.png'']]) fx
     \<and> precedes (Log [Template [Str ''Rendered image saved as rendered_image_'',
                          Num (int (frameCount w + 1)), Str ''.png'']])
          (Call (TextureUpdate green_bytes (800 * 4))) fx
     \<and> precedes (Call (TextureUpdate green_bytes (800 * 4))) (Call CanvasClear) fx
     \<and> precedes (Call CanvasClear) (Call CanvasCopy) fx
     \<and> precedes (Call CanvasCopy) (Call CanvasPresent) fx
     \<and> precedes (Call CanvasPresent) (Call (Unmap (length (staging w)))) fx
     \<and> last fx = Log [Str ''Frame updated successfully'']
     \<and> (\<forall>E' v e v'. render E' v = (Inl e, v') \<longrightarrow> frameCount v' = frameCount v)
     \<and> (\<forall>E' v v'. render E' v = (Inr (), v') \<longrightarrow> frameCount v' = increment (frameCount v))
     \<and> (\<forall>E' v. frameCount (snd (update E' v))
           = frameCount (snd (render E'
               (v\<lparr>effects := effects v @
                   [Log [Str ''Updating frame'', Num (int (frameCount v))]]\<rparr>))))"
proof -
  have len: "length (renderBuffer w) = 480000" using assms(2) by simp
  have inc: "increment (frameCount w) = frameCount w + 1"
    using assms(3) by (rule increment_small)
  let ?fx = "update_effects (frameCount w) (length (staging w))"
  let ?w' = "w\<lparr>effects := effects w @ ?fx,
                renderBuffer := green_frame,
                frameCount := increment (frameCount w),
                staging := staging w @ [\<lparr>contents = green_frame, mapstate = Unmapped\<rparr>]\<rparr>"
  have u: "update E w = (Inr (), ?w')"
    using assms(1) len by (rule update_ok)
  have r: "frameCount (snd (render E w)) = frameCount w + 1"
    by (simp add: render_ok [OF assms(1) len] inc)
  have "effects ?w' = effects w @ ?fx" and "frameCount ?w' = frameCount w + 1"
    by (simp_all add: inc)
  moreover have "precedes (Call (DispatchWorkgroups 50 38)) (Call QueueSubmit) ?fx"
    and "precedes (Call QueueSubmit) (Call (CopyBufferToBuffer (length (staging w)) (800 * 600 * 4))) ?fx"
    and "precedes (Call (CopyBufferToBuffer (length (staging w)) (800 * 600 * 4)))
          (Call (MapAsync (length (staging w)))) ?fx"
    and "precedes (Call (MapAsync (length (staging w)))) (Call (PngDataSet green_bytes)) ?fx"
    and "precedes (Call (PngDataSet green_bytes)) (Call PngSyncWrite) ?fx"
    and "precedes (Call PngSyncWrite)
          (Log [Template [Str ''Rendered image saved as rendered_image_'',
                          Num (int (frameCount w + 1)), Str ''.png'']]) ?fx"
    and "precedes (Log [Template [Str ''Rendered image saved as rendered_image_'',
                          Num (int (frameCount w + 1)), Str ''.png'']])
          (Call (TextureUpdate green_bytes (800 * 4))) ?fx"
    and "precedes (Call (TextureUpdate green_bytes (800 * 4))) (Call CanvasClear) ?fx"
    and "precedes (Call CanvasClear) (Call CanvasCopy) ?fx"
    and "precedes (Call CanvasCopy) (Call CanvasPresent) ?fx"
    and "precedes (Call CanvasPresent) (Call (Unmap (length (staging w)))) ?fx"
    and "last ?fx = Log [Str ''Frame updated successfully'']"
    by (simp_all add: frame_effects_defs inc)
  moreover have "\<forall>E' v e v'. render E' v = (Inl e, v') \<longrightarrow> frameCount v' = frameCount v"
    using render_count by fastforce
  moreover have "\<forall>E' v v'. render E' v = (Inr (), v') \<longrightarrow> frameCount v' = increment (frameCount v)"
    using render_count by fastforce
  moreover have "\<forall>E' v. frameCount (snd (update E' v))
           = frameCount (snd (render E'
               (v\<lparr>effects := effects v @
                   [Log [Str ''Updating frame'', Num (int (frameCount v))]]\<rparr>)))"
    using update_count by blast
  ultimately show ?thesis
    using u r by blast
qed

theorem redraw_order_witness:
  "quiet_from calm (length (effects fresh)) \<and> length (renderBuffer fresh) = 800 * 600
   \<and> frameCount fresh < 2 ^ 53
   \<and> (\<exists>w' fx. update calm fresh = (Inr (), w')
     \<and> effects w' = effects fresh @ fx
     \<and> frameCount w' = frameCount fresh + 1
     \<and> frameCount (snd (render calm fresh)) = frameCount fresh + 1
     \<and> precedes (Call PngSyncWrite)
          (Log [Template [Str ''Rendered image saved as rendered_image_'',
                          Num (int (frameCount fresh + 1)), Str ''.png'']]) fx
     \<and> precedes (Call CanvasCopy) (Call CanvasPresent) fx)
   \<and> fst (render submit_fails_once fresh) = Inl (Error ''submission failed'')
   \<and> Call Finish \<in> set (effects (snd (render submit_fails_once fresh)))
   \<and> frameCount (snd (render submit_fails_once fresh)) = frameCount fresh
   \<and> fst (render calm fresh) = Inr ()
   \<and> frameCount (snd (render calm fresh)) = increment (frameCount fresh)"
proof -
  have q: "quiet_from calm (length (effects fresh))" by (rule quiet_calm)
  have l: "length (renderBuffer fresh) = 800 * 600" by (simp add: length_renderBuffer_fresh)
  have f: "frameCount fresh < 2 ^ 53" by (simp add: fresh_eq)
  note t = redraw_order [OF q l f]
  have a: "\<exists>w' fx. update calm fresh = (Inr (), w')
     \<and> effects w' = effects fresh @ fx
     \<and> frameCount w' = frameCount fresh + 1
     \<and> frameCount (snd (render calm fresh)) = frameCount fresh + 1
     \<and> precedes (Call PngSyncWrite)
          (Log [Template [Str ''Rendered image saved as rendered_image_'',
                          Num (int (frameCount fresh + 1)), Str ''.png'']]) fx
     \<and> precedes (Call CanvasCopy) (Call CanvasPresent) fx"
    using t by blast
  from t have thr: "\<forall>E' v e v'. render E' v = (Inl e, v') \<longrightarrow> frameCount v' = frameCount v"
    and ret: "\<forall>E' v v'. render E' v = (Inr (), v') \<longrightarrow> frameCount v' = increment (frameCount v)"
    by blast+
  have s: "render submit_fails_once fresh =
      (Inl (Error ''submission failed''), snd (render submit_fails_once fresh))"
    and fin: "Call Finish \<in> set (effects (snd (render submit_fails_once fresh)))"
    by (simp_all add: render_submit_fails_once length_effects_fresh)
  have c: "render calm fresh = (Inr (), snd (render calm fresh))"
    by (simp add: render_ok [OF q length_renderBuffer_fresh])
  have b1: "frameCount (snd (render submit_fails_once fresh)) = frameCount fresh"
    using thr s by blast
  have b2: "frameCount (snd (render calm fresh)) = increment (frameCount fresh)"
    using ret c by blast
  have s1: "fst (render submit_fails_once fresh) = Inl (Error ''submission failed'')"
    using s by (metis fst_conv)
  have c1: "fst (render calm fresh) = Inr ()"
    using c by (metis fst_conv)
  show ?thesis
    using q l f a s1 fin b1 c1 b2 by blast
qed

text \<open>
  In the first frame of a run without faults the encoder runs before the presentation, not
  after it, and the frame counter is 1 when \<open>render\<close> returns, before the readback, the
  encoder and the presentation.
\<close>

theorem redraw_order_counterexample:
  "precedes (Call PngSyncWrite) (Call CanvasPresent) (effects (snd (update calm fresh)))
   \<and> \<not> precedes (Call CanvasPresent) (Call PngSyncWrite) (effects (snd (update calm fresh)))
   \<and> frameCount fresh = 0
   \<and> frameCount (snd (render calm fresh)) = 1
   \<and> precedes (Log [Template [Str ''Rendered image saved as rendered_image_'', Num 1, Str ''.png'']])
        (Call CanvasPresent) (effects (snd (update calm fresh)))"
proof -
  have u: "effects (snd (update calm fresh)) = effects fresh @ update_effects 0 0"
    by (simp add: update_ok quiet_calm length_renderBuffer_fresh) (simp add: fresh_eq)
  have r: "frameCount (snd (render calm fresh)) = 1"
    by (simp add: render_ok quiet_calm length_renderBuffer_fresh) (simp add: fresh_eq increment_def)
  show ?thesis
    unfolding u r
    by (simp add: fresh_eq frame_effects_defs increment_def)
qed

text \<open>
  C7. Whatever throws while a redraw event is processed, the pass of the loop ends with
  \<^verbatim>\<open>continue\<close>: \<open>update\<close> catches the error and prints it as its last effect, the loop
  goes on with the next event, and the render buffer keeps its size. When the next event
  is a redraw again and nothing throws any more, that frame is complete: its effects are
  those of a frame without faults, with the presentation, and end with the line
  \<^verbatim>\<open>Frame updated successfully\<close>.
\<close>

theorem failed_frame_is_contained:
  assumes "events E i = Value Draw" and "length (renderBuffer w) = 800 * 600"
  shows "\<exists>w1. loop_body E i w = (Inr Continue, w1)
      \<and> loop_from E i w = loop_from E (Suc i) w1
      \<and> length (renderBuffer w1) = 800 * 600
      \<and> (\<forall>e w0. update_try E
              (w\<lparr>effects := effects w @ [Log [Str ''Received event:'', Ev Draw],
                     Log [Str ''Draw event received''],
                     Log [Str ''Updating frame'', Num (int (frameCount w))]]\<rparr>) = (Inl e, w0)
            \<longrightarrow> effects w1 = effects w0 @ [LogError [Str ''Error during update:'', Thrown e]])
      \<and> (events E (Suc i) = Value Draw \<and> quiet_from E (length (effects w1)) \<longrightarrow>
           (\<exists>w2. loop_body E (Suc i) w1 = (Inr Continue, w2)
               \<and> effects w2 = effects w1 @ [Log [Str ''Received event:'', Ev Draw],
                     Log [Str ''Draw event received'']]
                     @ update_effects (frameCount w1) (length (staging w1))
               \<and> Call CanvasPresent \<in> set (update_effects (frameCount w1) (length (staging w1)))
               \<and> last (effects w2) = Log [Str ''Frame updated successfully'']))"
proof -
  let ?l = "[Log [Str ''Received event:'', Ev Draw], Log [Str ''Draw event received'']]"
  let ?wl = "w\<lparr>effects := effects w @ ?l\<rparr>"
  let ?w1 = "snd (update E ?wl)"
  have body: "loop_body E i w = (Inr Continue, ?w1)"
    using assms(1) by (rule loop_body_Draw)
  have step: "loop_from E i w = loop_from E (Suc i) ?w1"
    by (subst loop_from.simps) (simp add: body)
  have "buffer_ok ?wl"
    using assms(2) by (simp add: buffer_ok_def)
  then have "buffer_ok ?w1"
    by (rule keepsD [OF keeps_update])
  then have len: "length (renderBuffer ?w1) = 800 * 600"
    by (simp add: buffer_ok_def)
  have logged: "\<forall>e w0. update_try E
              (w\<lparr>effects := effects w @ [Log [Str ''Received event:'', Ev Draw],
                     Log [Str ''Draw event received''],
                     Log [Str ''Updating frame'', Num (int (frameCount w))]]\<rparr>) = (Inl e, w0)
            \<longrightarrow> effects ?w1 = effects w0 @ [LogError [Str ''Error during update:'', Thrown e]]"
  proof (intro allI impI)
    fix e w0
    assume "update_try E
              (w\<lparr>effects := effects w @ [Log [Str ''Received event:'', Ev Draw],
                     Log [Str ''Draw event received''],
                     Log [Str ''Updating frame'', Num (int (frameCount w))]]\<rparr>) = (Inl e, w0)"
    then have "update_try E (?wl\<lparr>effects := effects ?wl @ [Log [Str ''Updating frame'',
              Num (int (frameCount ?wl))]]\<rparr>) = (Inl e, w0)"
      by simp
    from update_logged [OF this]
    show "effects ?w1 = effects w0 @ [LogError [Str ''Error during update:'', Thrown e]]"
      by simp
  qed
  have nxt: "events E (Suc i) = Value Draw \<and> quiet_from E (length (effects ?w1)) \<longrightarrow>
           (\<exists>w2. loop_body E (Suc i) ?w1 = (Inr Continue, w2)
               \<and> effects w2 = effects ?w1 @ ?l
                     @ update_effects (frameCount ?w1) (length (staging ?w1))
               \<and> Call CanvasPresent \<in> set (update_effects (frameCount ?w1) (length (staging ?w1)))
               \<and> last (effects w2) = Log [Str ''Frame updated successfully''])"
  proof
    assume a: "events E (Suc i) = Value Draw \<and> quiet_from E (length (effects ?w1))"
    let ?v = "?w1\<lparr>effects := effects ?w1 @ ?l\<rparr>"
    have q: "quiet_from E (length (effects ?v))"
      using a by (simp add: quiet_from_Suc)
    have l: "length (renderBuffer ?v) = 480000"
      using len by simp
    have b2: "loop_body E (Suc i) ?w1 = (Inr Continue, snd (update E ?v))"
      using a by (simp add: loop_body_Draw)
    have e2: "effects (snd (update E ?v)) = effects ?w1 @ ?l
                     @ update_effects (frameCount ?w1) (length (staging ?w1))"
      by (simp add: update_ok [OF q l])
    have p: "Call CanvasPresent \<in> set (update_effects (frameCount ?w1) (length (staging ?w1)))"
      by (simp add: frame_effects_defs)
    have "last (update_effects (frameCount ?w1) (length (staging ?w1)))
        = Log [Str ''Frame updated successfully'']"
      by (simp add: frame_effects_defs)
    then have la: "last (effects (snd (update E ?v))) = Log [Str ''Frame updated successfully'']"
      unfolding e2 by (simp add: update_effects_def)
    show "\<exists>w2. loop_body E (Suc i) ?w1 = (Inr Continue, w2)
               \<and> effects w2 = effects ?w1 @ ?l
                     @ update_effects (frameCount ?w1) (length (staging ?w1))
               \<and> Call CanvasPresent \<in> set (update_effects (frameCount ?w1) (length (staging ?w1)))
               \<and> last (effects w2) = Log [Str ''Frame updated successfully'']"
      using b2 e2 p la by blast
  qed
  show ?thesis
    using body step len logged nxt by blast
qed

theorem failed_frame_is_contained_witness:
  "events submit_fails_once 0 = Value Draw \<and> length (renderBuffer fresh) = 800 * 600
   \<and> events submit_fails_once (Suc 0) = Value Draw
   \<and> update_try submit_fails_once
       (fresh\<lparr>effects := effects fresh @ [Log [Str ''Received event:'', Ev Draw],
                 Log [Str ''Draw event received''],
                 Log [Str ''Updating frame'', Num (int (frameCount fresh))]]\<rparr>)
      = (Inl (Error ''submission failed''),
         fresh\<lparr>effects := effects fresh @ [Log [Str ''Received event:'', Ev Draw],
                 Log [Str ''Draw event received'']] @ butlast failed_frame_effects\<rparr>)
   \<and> (\<exists>w1 w2. loop_body submit_fails_once 0 fresh = (Inr Continue, w1)
        \<and> last (effects w1)
            = LogError [Str ''Error during update:'', Thrown (Error ''submission failed'')]
        \<and> quiet_from submit_fails_once (length (effects w1))
        \<and> loop_body submit_fails_once (Suc 0) w1 = (Inr Continue, w2)
        \<and> last (effects w2) = Log [Str ''Frame updated successfully''])"
proof -
  let ?E = submit_fails_once
  let ?W1 = "fresh\<lparr>effects := effects fresh @ [Log [Str ''Received event:'', Ev Draw],
                 Log [Str ''Draw event received'']] @ failed_frame_effects\<rparr>"
  have e0: "events ?E 0 = Value Draw" and e1: "events ?E (Suc 0) = Value Draw"
    by (simp_all add: submit_fails_once_def)
  have l: "length (renderBuffer fresh) = 800 * 600"
    by (simp add: length_renderBuffer_fresh)
  have f: "update_try ?E
       (fresh\<lparr>effects := effects fresh @ [Log [Str ''Received event:'', Ev Draw],
                 Log [Str ''Draw event received''],
                 Log [Str ''Updating frame'', Num (int (frameCount fresh))]]\<rparr>)
      = (Inl (Error ''submission failed''),
         fresh\<lparr>effects := effects fresh @ [Log [Str ''Received event:'', Ev Draw],
                 Log [Str ''Draw event received'']] @ butlast failed_frame_effects\<rparr>)"
    using update_try_submit_fails_once by (simp add: frameCount_fresh)
  have b: "loop_body ?E 0 fresh = (Inr Continue, ?W1)"
    by (rule loop_body_submit_fails_once)
  have la: "last (effects ?W1)
      = LogError [Str ''Error during update:'', Thrown (Error ''submission failed'')]"
    by (simp add: failed_frame_effects_def)
  have q: "quiet_from ?E (length (effects ?W1))"
    by (rule quiet_from_submit_fails_once)
      (simp add: length_effects_fresh failed_frame_effects_def)
  from failed_frame_is_contained [OF e0 l] obtain w1 where
    w1: "loop_body ?E 0 fresh = (Inr Continue, w1)" and
    n: "events ?E (Suc 0) = Value Draw \<and> quiet_from ?E (length (effects w1)) \<longrightarrow>
           (\<exists>w2. loop_body ?E (Suc 0) w1 = (Inr Continue, w2)
               \<and> effects w2 = effects w1 @ [Log [Str ''Received event:'', Ev Draw],
                     Log [Str ''Draw event received'']]
                     @ update_effects (frameCount w1) (length (staging w1))
               \<and> Call CanvasPresent \<in> set (update_effects (frameCount w1) (length (staging w1)))
               \<and> last (effects w2) = Log [Str ''Frame updated successfully''])"
    by blast
  from w1 b have eq: "w1 = ?W1" by simp
  from n e1 q obtain w2 where
    "loop_body ?E (Suc 0) ?W1 = (Inr Continue, w2)"
    and "last (effects w2) = Log [Str ''Frame updated successfully'']"
    unfolding eq by blast
  then show ?thesis
    using e0 e1 l f b la q by blast
qed

text \<open>
  C8. When the event of pass \<open>i\<close> is a quit, the loop returns in that pass, after its two
  log lines and nothing else. A loop that starts at any earlier pass ends, and what it
  gives does not depend on the events after pass \<open>i\<close>: they are never asked for.
\<close>

theorem quit_ends_loop:
  assumes "events E i = Value Quit"
  shows "loop_from E i w =
           Some (Inr (), w\<lparr>effects := effects w @ [Log [Str ''Received event:'', Ev Quit],
                                                   Log [Str ''Quit event received'']]\<rparr>)
       \<and> (\<forall>k w'. k \<le> i \<longrightarrow> loop_from E k w' \<noteq> None)
       \<and> (\<forall>ev k w'. k \<le> i \<longrightarrow>
            loop_from (E\<lparr>events := (\<lambda>j. if j \<le> i then events E j else ev j)\<rparr>) k w'
              = loop_from E k w')
       \<and> (\<forall>ev. loop (E\<lparr>events := (\<lambda>j. if j \<le> i then events E j else ev j)\<rparr>) w = loop E w)"
  using assms
  by (simp add: loop_from_Quit loop_from_reaches_Quit loop_from_ignores_later loop_def)

theorem quit_ends_loop_witness:
  "events quit_midway 1 = Value Quit
   \<and> events quit_midway 2 = Value Draw
   \<and> loop_from quit_midway 1 fresh =
       Some (Inr (), fresh\<lparr>effects := effects fresh @ [Log [Str ''Received event:'', Ev Quit],
                                                      Log [Str ''Quit event received'']]\<rparr>)
   \<and> loop quit_midway fresh =
       Some (Inr (), fresh\<lparr>effects := effects fresh @
               [Log [Str ''Entering main loop''],
                Log [Str ''Received event:'', Ev KeyDown], Log [Str ''KeyDown event received''],
                Log [Str ''Received event:'', Ev Quit], Log [Str ''Quit event received'']]\<rparr>)
   \<and> loop (quit_midway\<lparr>events := (\<lambda>j. if j \<le> 1 then events quit_midway j else Done)\<rparr>) fresh
       = loop quit_midway fresh"
proof -
  have q: "events quit_midway 1 = Value Quit" and d: "events quit_midway 2 = Value Draw"
    and k: "events quit_midway 0 = Value KeyDown"
    by (simp_all add: quit_midway_def)
  note t = quit_ends_loop [OF q]
  have a: "loop_from quit_midway 1 fresh =
       Some (Inr (), fresh\<lparr>effects := effects fresh @ [Log [Str ''Received event:'', Ev Quit],
                                                      Log [Str ''Quit event received'']]\<rparr>)"
    by (rule conjunct1 [OF t [of fresh]])
  have b: "loop quit_midway fresh =
       Some (Inr (), fresh\<lparr>effects := effects fresh @
               [Log [Str ''Entering main loop''],
                Log [Str ''Received event:'', Ev KeyDown], Log [Str ''KeyDown event received''],
                Log [Str ''Received event:'', Ev Quit], Log [Str ''Quit event received'']]\<rparr>)"
  proof -
    have q': "events quit_midway (Suc 0) = Value Quit"
      using q by simp
    show ?thesis
      unfolding loop_def
      by (subst loop_from.simps)
        (simp add: loop_body_KeyDown [OF k] js_defs conjunct1 [OF quit_ends_loop [OF q']])
  qed
  have c: "loop (quit_midway\<lparr>events := (\<lambda>j. if j \<le> 1 then events quit_midway j else Done)\<rparr>) fresh
       = loop quit_midway fresh"
    by (rule spec [OF conjunct2 [OF conjunct2 [OF conjunct2 [OF t [of fresh]]]],
          of "\<lambda>j. Done"])
  show ?thesis using q d a b c by simp
qed

text \<open>
  C9 asks that the staging buffer of a frame is unmapped on every way out of the frame.
  \<open>update\<close> unmaps it as the last call of its \<^verbatim>\<open>try\<close> block only. In the first frame of
  a run in which \<^verbatim>\<open>canvas.present()\<close> throws, the error is caught and printed, and the
  one staging buffer of the run is still mapped when \<open>update\<close> returns: \<^verbatim>\<open>unmap\<close> was
  never called.
\<close>

theorem staging_left_mapped:
  "mapstate (staging (snd (update present_fails fresh)) ! 0) = Mapped
   \<and> length (staging (snd (update present_fails fresh))) = 1
   \<and> Call (Unmap 0) \<notin> set (effects (snd (update present_fails fresh)))
   \<and> last (effects (snd (update present_fails fresh)))
       = LogError [Str ''Error during update:'', Thrown (Error ''present failed'')]"
  unfolding update_present_fails
  by (simp add: fresh_eq frame_effects_defs)

text \<open>
  C10. Every run of the program that ends, ends with \<^verbatim>\<open>Deno.exit(0)\<close> as its last effect:
  the exit status is 0. A run ends whenever the event stream has a quit, its end or an
  abort somewhere. When the \<^verbatim>\<open>try\<close> block of the program throws, the error is printed
  as \<^verbatim>\<open>Fatal error:\<close> and the exit status is still 0; so it is when no adapter is found.
\<close>

theorem exit_status_zero:
  "(program E = Some w \<longrightarrow> exit_status (effects w) = Some 0 \<and> last (effects w) = Exit 0)
   \<and> (events E i = Value Quit \<or> events E i = Done
        \<or> (\<exists>e. events E i = Rejects e \<and> is_abort e)
       \<longrightarrow> (\<exists>w'. program E = Some w' \<and> exit_status (effects w') = Some 0))
   \<and> (\<forall>e w0. program_try E = Some (Inl e, w0) \<longrightarrow>
         program E = Some (w0\<lparr>effects := effects w0 @
           [LogError [Str ''Fatal error:'', Thrown e], Log [Str ''Cleaning up...''], Exit 0]\<rparr>))
   \<and> (\<not> adapter E \<and> faults E 2 RequestAdapter = None \<longrightarrow>
         program_try E = Some (Inl (Error ''No appropriate GPUAdapter found''),
           start\<lparr>effects := [Log [Str ''Starting application''],
               Log [Str ''Requesting WebGPU adapter''], Call RequestAdapter]\<rparr>))"
proof (intro conjI impI allI)
  assume p: "program E = Some w"
  from program_exit [OF p] obtain xs where
    xs: "effects w = xs @ [Log [Str ''Cleaning up...''], Exit 0]" by blast
  have "effects w = (xs @ [Log [Str ''Cleaning up...'']]) @ [Exit 0]"
    using xs by simp
  then show "exit_status (effects w) = Some 0"
    by (simp only: exit_status_append_Exit)
  show "last (effects w) = Exit 0"
    using xs by simp
next
  assume "events E i = Value Quit \<or> events E i = Done
        \<or> (\<exists>e. events E i = Rejects e \<and> is_abort e)"
  from program_try_ends [OF this] obtain r where r: "program_try E = Some r"
    by auto
  from program_Some [OF r] obtain w' where w': "program E = Some w'"
    by blast
  from program_exit [OF w'] obtain xs where
    "effects w' = (xs @ [Log [Str ''Cleaning up...'']]) @ [Exit 0]" by auto
  then have "exit_status (effects w') = Some 0"
    by (simp only: exit_status_append_Exit)
  then show "\<exists>w'. program E = Some w' \<and> exit_status (effects w') = Some 0"
    using w' by blast
next
  fix e w0
  assume "program_try E = Some (Inl e, w0)"
  from program_Some [OF this]
  show "program E = Some (w0\<lparr>effects := effects w0 @
           [LogError [Str ''Fatal error:'', Thrown e], Log [Str ''Cleaning up...''], Exit 0]\<rparr>)"
    by simp
next
  assume "\<not> adapter E \<and> faults E 2 RequestAdapter = None"
  then have "\<not> adapter E" and "faults E (Suc (Suc 0)) RequestAdapter = None"
    by (simp_all add: numeral_2_eq_2)
  then show "program_try E = Some (Inl (Error ''No appropriate GPUAdapter found''),
           start\<lparr>effects := [Log [Str ''Starting application''],
               Log [Str ''Requesting WebGPU adapter''], Call RequestAdapter]\<rparr>)"
    by (simp add: program_try_def getDevice_def js_defs call_def start_def
        cong: js_congs)
qed

theorem exit_status_zero_witness:
  "\<not> adapter no_adapter \<and> faults no_adapter 2 RequestAdapter = None
   \<and> events no_adapter 0 = Done
   \<and> program_try no_adapter = Some (Inl (Error ''No appropriate GPUAdapter found''),
           start\<lparr>effects := [Log [Str ''Starting application''],
               Log [Str ''Requesting WebGPU adapter''], Call RequestAdapter]\<rparr>)
   \<and> program no_adapter = Some (start\<lparr>effects := [Log [Str ''Starting application''],
               Log [Str ''Requesting WebGPU adapter''], Call RequestAdapter,
               LogError [Str ''Fatal error:'', Thrown (Error ''No appropriate GPUAdapter found'')],
               Log [Str ''Cleaning up...''], Exit 0]\<rparr>)
   \<and> exit_status (effects (start\<lparr>effects := [Log [Str ''Starting application''],
               Log [Str ''Requesting WebGPU adapter''], Call RequestAdapter,
               LogError [Str ''Fatal error:'', Thrown (Error ''No appropriate GPUAdapter found'')],
               Log [Str ''Cleaning up...''], Exit 0]\<rparr>)) = Some 0
   \<and> events calm 0 = Done
   \<and> (\<exists>w'. program calm = Some w' \<and> exit_status (effects w') = Some 0)"
proof -
  let ?wa = "start\<lparr>effects := [Log [Str ''Starting application''],
               Log [Str ''Requesting WebGPU adapter''], Call RequestAdapter]\<rparr>"
  let ?w = "start\<lparr>effects := [Log [Str ''Starting application''],
               Log [Str ''Requesting WebGPU adapter''], Call RequestAdapter,
               LogError [Str ''Fatal error:'', Thrown (Error ''No appropriate GPUAdapter found'')],
               Log [Str ''Cleaning up...''], Exit 0]\<rparr>"
  have h: "\<not> adapter no_adapter \<and> faults no_adapter 2 RequestAdapter = None"
    and d: "events no_adapter 0 = Done"
    by (simp_all add: no_adapter_def)
  note t = exit_status_zero [of no_adapter ?w 0]
  have pt: "program_try no_adapter = Some (Inl (Error ''No appropriate GPUAdapter found''), ?wa)"
    by (rule mp [OF conjunct2 [OF conjunct2 [OF conjunct2 [OF t]]] h])
  have p: "program no_adapter = Some ?w"
    using conjunct1 [OF conjunct2 [OF conjunct2 [OF t]]] pt by simp
  have x: "exit_status (effects ?w) = Some 0"
    using mp [OF conjunct1 [OF t] p] by (rule conjunct1)
  have c: "events calm 0 = Done"
    by (simp add: calm_def)
  have "\<exists>w'. program calm = Some w' \<and> exit_status (effects w') = Some 0"
    using conjunct1 [OF conjunct2 [OF exit_status_zero [of calm _ 0]]] c by simp
  then show ?thesis
    using h d pt p x c by simp
qed

end
